theory Spec2Isabelle
  imports Main "HOL-Library.Finite_Map" "HOL-Library.Multiset" "HOL-Library.Word" "HOL-Library.Sublist"
begin

section \<open>Go runtime: strings, console output, heap objects\<close>

text \<open>
  A Go \<open>string\<close> is a sequence of bytes, modelled as \<^typ>\<open>string\<close> (a list of 8-bit
  characters). Standard output is the list of the chunks written so far, one chunk for each
  call of \<open>fmt.Printf\<close>, \<open>fmt.Print\<close> or \<open>fmt.Println\<close>, in order. A pointer to a
  heap object is the index of the object in the list of all objects allocated so far, so
  that the allocation of a new object yields an address no older object has.
\<close>

type_synonym ref = nat

definition nl :: string where
  "nl = [CHR 0x0A]"

text \<open>The verb \<open>%d\<close> of \<open>fmt\<close>: a decimal numeral, with a minus sign when negative.\<close>

function dec_nat :: "nat \<Rightarrow> string" where
  "dec_nat n =
     (if n < 10 then [''0123456789'' ! n]
      else dec_nat (n div 10) @ [''0123456789'' ! (n mod 10)])"
  by pat_completeness auto
termination
  by (relation "measure id") auto

declare dec_nat.simps [simp del]

definition fmt_d :: "int \<Rightarrow> string" where
  "fmt_d i = (if i < 0 then ''-'' @ dec_nat (nat (- i)) else dec_nat (nat i))"

text \<open>The verb \<open>%t\<close> of \<open>fmt\<close>.\<close>

definition fmt_t :: "bool \<Rightarrow> string" where
  "fmt_t b = (if b then ''true'' else ''false'')"

record 'd world =
  heap :: "'d list"
  stdout :: "string list"

definition print :: "string \<Rightarrow> 'd world \<Rightarrow> 'd world" where
  "print s w = w\<lparr>stdout := stdout w @ [s]\<rparr>"

definition alloc :: "'d \<Rightarrow> 'd world \<Rightarrow> ref \<times> 'd world" where
  "alloc obj w = (length (heap w), w\<lparr>heap := heap w @ [obj]\<rparr>)"

section \<open>Flyweight: the forest\<close>

text \<open>
  The flyweight program is \<^verbatim>\<open>src/unnamed/part_006\<close>; its three examples follow in the
  order of the source. The factories below are those built by their constructors (\<open>NewTreeTypeFactory\<close>,
  \<open>NewStyleFactory\<close>, \<open>NewSpriteFactory\<close>), whose map is always made; a Go map
  is finite, hence a \<^typ>\<open>('k, 'v) fmap\<close>, and \<open>len\<close> is the number of its keys.
\<close>

record TreeType =
  name_tt :: string
  color_tt :: string
  texture_tt :: string

definition NewTreeType :: "string \<Rightarrow> string \<Rightarrow> string \<Rightarrow> TreeType world \<Rightarrow> ref \<times> TreeType world" where
  "NewTreeType name color texture w =
     alloc \<lparr>name_tt = name, color_tt = color, texture_tt = texture\<rparr>
       (print (''[TreeType] Creating new tree type: '' @ name @ '' ('' @ color @ '', ''
                 @ texture @ '')'' @ nl) w)"

record TreeTypeFactory =
  treeTypes :: "(string, ref) fmap"

definition NewTreeTypeFactory :: TreeTypeFactory where
  "NewTreeTypeFactory = \<lparr>treeTypes = fmempty\<rparr>"

definition tree_key :: "string \<Rightarrow> string \<Rightarrow> string \<Rightarrow> string" where
  "tree_key name color texture = name @ ''-'' @ color @ ''-'' @ texture"

definition GetTreeType ::
  "string \<Rightarrow> string \<Rightarrow> string \<Rightarrow> TreeTypeFactory \<times> TreeType world
     \<Rightarrow> ref \<times> TreeTypeFactory \<times> TreeType world" where
  "GetTreeType name color texture s =
     (let f = fst s; w = snd s;
          key = tree_key name color texture
      in case fmlookup (treeTypes f) key of
           Some treeType \<Rightarrow>
             (treeType, f,
              print (''[TreeTypeFactory] Reusing existing tree type: '' @ key @ nl) w)
         | None \<Rightarrow>
             (let (treeType, w') = NewTreeType name color texture w
              in (treeType, f\<lparr>treeTypes := fmupd key treeType (treeTypes f)\<rparr>, w')))"

definition GetTotalTypes :: "TreeTypeFactory \<Rightarrow> int" where
  "GetTotalTypes f = int (fcard (fmdom (treeTypes f)))"

record Tree =
  x_tree :: int
  y_tree :: int
  treeType :: ref

definition NewTree :: "int \<Rightarrow> int \<Rightarrow> ref \<Rightarrow> Tree" where
  "NewTree x y tt = \<lparr>x_tree = x, y_tree = y, treeType = tt\<rparr>"

record Forest =
  trees :: "Tree list"
  factory :: TreeTypeFactory

definition NewForest :: Forest where
  "NewForest = \<lparr>trees = [], factory = NewTreeTypeFactory\<rparr>"

definition PlantTree ::
  "int \<Rightarrow> int \<Rightarrow> string \<Rightarrow> string \<Rightarrow> string \<Rightarrow> Forest \<times> TreeType world
     \<Rightarrow> Forest \<times> TreeType world" where
  "PlantTree x y name color texture s =
     (let f = fst s;
          (tt, fac, w') = GetTreeType name color texture (factory f, snd s);
          tree = NewTree x y tt
      in (f\<lparr>trees := trees f @ [tree], factory := fac\<rparr>, w'))"

section \<open>Flyweight: the text editor\<close>

record CharacterStyle =
  font_cs :: string
  size_cs :: int
  color_cs :: string
  bold_cs :: bool
  italic_cs :: bool

definition NewCharacterStyle ::
  "string \<Rightarrow> int \<Rightarrow> string \<Rightarrow> bool \<Rightarrow> bool \<Rightarrow> CharacterStyle world
     \<Rightarrow> ref \<times> CharacterStyle world" where
  "NewCharacterStyle font sz color bold italic w =
     (let w1 = print (''[CharacterStyle] Creating style: '' @ font @ '', '' @ fmt_d sz
                        @ ''pt, '' @ color) w;
          w2 = (if bold then print '', Bold'' w1 else w1);
          w3 = (if italic then print '', Italic'' w2 else w2);
          w4 = print nl w3
      in alloc \<lparr>font_cs = font, size_cs = sz, color_cs = color, bold_cs = bold,
                 italic_cs = italic\<rparr> w4)"

record StyleFactory =
  styles :: "(string, ref) fmap"

definition NewStyleFactory :: StyleFactory where
  "NewStyleFactory = \<lparr>styles = fmempty\<rparr>"

definition style_key :: "string \<Rightarrow> int \<Rightarrow> string \<Rightarrow> bool \<Rightarrow> bool \<Rightarrow> string" where
  "style_key font sz color bold italic =
     font @ ''-'' @ fmt_d sz @ ''-'' @ color @ ''-'' @ fmt_t bold @ ''-'' @ fmt_t italic"

definition GetStyle ::
  "string \<Rightarrow> int \<Rightarrow> string \<Rightarrow> bool \<Rightarrow> bool \<Rightarrow> StyleFactory \<times> CharacterStyle world
     \<Rightarrow> ref \<times> StyleFactory \<times> CharacterStyle world" where
  "GetStyle font sz color bold italic s =
     (let f = fst s; w = snd s;
          key = style_key font sz color bold italic
      in case fmlookup (styles f) key of
           Some style \<Rightarrow>
             (style, f, print (''[StyleFactory] Reusing style: '' @ key @ nl) w)
         | None \<Rightarrow>
             (let (style, w') = NewCharacterStyle font sz color bold italic w
              in (style, f\<lparr>styles := fmupd key style (styles f)\<rparr>, w')))"

definition GetTotalStyles :: "StyleFactory \<Rightarrow> int" where
  "GetTotalStyles f = int (fcard (fmdom (styles f)))"

section \<open>Flyweight: the particle system\<close>

record ParticleSprite =
  name_ps :: string
  color_ps :: string
  width_ps :: int
  height_ps :: int

definition NewParticleSprite ::
  "string \<Rightarrow> string \<Rightarrow> int \<Rightarrow> int \<Rightarrow> ParticleSprite world \<Rightarrow> ref \<times> ParticleSprite world" where
  "NewParticleSprite name color width height w =
     alloc \<lparr>name_ps = name, color_ps = color, width_ps = width, height_ps = height\<rparr>
       (print (''[ParticleSprite] Loading sprite: '' @ name @ '' ('' @ color @ '', ''
                 @ fmt_d width @ ''x'' @ fmt_d height @ '')'' @ nl) w)"

record SpriteFactory =
  sprites :: "(string, ref) fmap"

definition NewSpriteFactory :: SpriteFactory where
  "NewSpriteFactory = \<lparr>sprites = fmempty\<rparr>"

definition sprite_key :: "string \<Rightarrow> string \<Rightarrow> int \<Rightarrow> int \<Rightarrow> string" where
  "sprite_key name color width height =
     name @ ''-'' @ color @ ''-'' @ fmt_d width @ ''-'' @ fmt_d height"

definition GetSprite ::
  "string \<Rightarrow> string \<Rightarrow> int \<Rightarrow> int \<Rightarrow> SpriteFactory \<times> ParticleSprite world
     \<Rightarrow> ref \<times> SpriteFactory \<times> ParticleSprite world" where
  "GetSprite name color width height s =
     (let f = fst s; w = snd s;
          key = sprite_key name color width height
      in case fmlookup (sprites f) key of
           Some sprite \<Rightarrow> (sprite, f, w)
         | None \<Rightarrow>
             (let (sprite, w') = NewParticleSprite name color width height w
              in (sprite, f\<lparr>sprites := fmupd key sprite (sprites f)\<rparr>, w')))"

definition GetTotalSprites :: "SpriteFactory \<Rightarrow> int" where
  "GetTotalSprites f = int (fcard (fmdom (sprites f)))"

section \<open>Flyweight: what the three factories share\<close>

text \<open>
  The three factories are one mechanism written three times. \<open>acquire\<close> is that
  mechanism with the key, the new object and the console messages of the hit and of the miss
  as a request; each factory method above is shown to be an instance of it
  (\<open>GetTreeType_acquire\<close>, \<open>GetStyle_acquire\<close>, \<open>GetSprite_acquire\<close>), so that
  the properties of the cache are proved once. \<open>cache_ok\<close> is the state the factory
  methods maintain: every stored pointer is the address of an allocated object, and no two
  keys store the same pointer.
\<close>

type_synonym 'd cache_state = "(string, ref) fmap \<times> 'd world"
type_synonym 'd request = "string \<times> 'd \<times> string list \<times> string list"

definition acquire :: "'d request \<Rightarrow> 'd cache_state \<Rightarrow> ref \<times> 'd cache_state" where
  "acquire q s =
     (let key = fst q; obj = fst (snd q); hit = fst (snd (snd q)); miss = snd (snd (snd q));
          m = fst s; w = snd s
      in case fmlookup m key of
           Some r \<Rightarrow> (r, m, w\<lparr>stdout := stdout w @ hit\<rparr>)
         | None \<Rightarrow> (length (heap w), fmupd key (length (heap w)) m,
                     w\<lparr>heap := heap w @ [obj], stdout := stdout w @ miss\<rparr>))"

fun acquire_all :: "'d request list \<Rightarrow> 'd cache_state \<Rightarrow> ref list \<times> 'd cache_state" where
  "acquire_all [] s = ([], s)"
| "acquire_all (q # qs) s =
     (let (r, s1) = acquire q s; (rs, s2) = acquire_all qs s1 in (r # rs, s2))"

definition cache_ok :: "'d cache_state \<Rightarrow> bool" where
  "cache_ok s \<longleftrightarrow>
     (\<forall>k r. fmlookup (fst s) k = Some r \<longrightarrow> r < length (heap (snd s))) \<and>
     (\<forall>k k' r. fmlookup (fst s) k = Some r \<and> fmlookup (fst s) k' = Some r \<longrightarrow> k = k')"

definition tree_request :: "string \<times> string \<times> string \<Rightarrow> TreeType request" where
  "tree_request a =
     (case a of (name, color, texture) \<Rightarrow>
        (tree_key name color texture,
         \<lparr>name_tt = name, color_tt = color, texture_tt = texture\<rparr>,
         [''[TreeTypeFactory] Reusing existing tree type: '' @ tree_key name color texture @ nl],
         [''[TreeType] Creating new tree type: '' @ name @ '' ('' @ color @ '', ''
                 @ texture @ '')'' @ nl]))"

definition tree_st :: "TreeTypeFactory \<times> TreeType world \<Rightarrow> TreeType cache_state" where
  "tree_st s = (treeTypes (fst s), snd s)"

definition style_request :: "string \<times> int \<times> string \<times> bool \<times> bool \<Rightarrow> CharacterStyle request" where
  "style_request a =
     (case a of (font, sz, color, bold, italic) \<Rightarrow>
        (style_key font sz color bold italic,
         \<lparr>font_cs = font, size_cs = sz, color_cs = color, bold_cs = bold, italic_cs = italic\<rparr>,
         [''[StyleFactory] Reusing style: '' @ style_key font sz color bold italic @ nl],
         [''[CharacterStyle] Creating style: '' @ font @ '', '' @ fmt_d sz @ ''pt, '' @ color]
           @ (if bold then ['', Bold''] else []) @ (if italic then ['', Italic''] else [])
           @ [nl]))"

definition style_st :: "StyleFactory \<times> CharacterStyle world \<Rightarrow> CharacterStyle cache_state" where
  "style_st s = (styles (fst s), snd s)"

definition sprite_request :: "string \<times> string \<times> int \<times> int \<Rightarrow> ParticleSprite request" where
  "sprite_request a =
     (case a of (name, color, width, height) \<Rightarrow>
        (sprite_key name color width height,
         \<lparr>name_ps = name, color_ps = color, width_ps = width, height_ps = height\<rparr>,
         [],
         [''[ParticleSprite] Loading sprite: '' @ name @ '' ('' @ color @ '', ''
            @ fmt_d width @ ''x'' @ fmt_d height @ '')'' @ nl]))"

definition sprite_st :: "SpriteFactory \<times> ParticleSprite world \<Rightarrow> ParticleSprite cache_state" where
  "sprite_st s = (sprites (fst s), snd s)"

subsection \<open>Clients: a sequence of calls on one factory\<close>

text \<open>
  A client of a factory calls its method any number of times. \<open>GetTreeTypes\<close>,
  \<open>GetStyles\<close> and \<open>GetSprites\<close> make the calls of a list of attribute tuples in
  order and return the pointers the calls returned, in the same order; \<open>PlantTrees\<close>
  plants a list of trees in a forest, as \<open>main\<close> does.
\<close>

fun GetTreeTypes ::
  "(string \<times> string \<times> string) list \<Rightarrow> TreeTypeFactory \<times> TreeType world
     \<Rightarrow> ref list \<times> TreeTypeFactory \<times> TreeType world" where
  "GetTreeTypes [] s = ([], s)"
| "GetTreeTypes (a # as) s =
     (let (r, s1) = (case a of (name, color, texture) \<Rightarrow> GetTreeType name color texture s);
          (rs, s2) = GetTreeTypes as s1
      in (r # rs, s2))"

fun GetStyles ::
  "(string \<times> int \<times> string \<times> bool \<times> bool) list \<Rightarrow> StyleFactory \<times> CharacterStyle world
     \<Rightarrow> ref list \<times> StyleFactory \<times> CharacterStyle world" where
  "GetStyles [] s = ([], s)"
| "GetStyles (a # as) s =
     (let (r, s1) = (case a of (font, sz, color, bold, italic) \<Rightarrow>
                       GetStyle font sz color bold italic s);
          (rs, s2) = GetStyles as s1
      in (r # rs, s2))"

fun GetSprites ::
  "(string \<times> string \<times> int \<times> int) list \<Rightarrow> SpriteFactory \<times> ParticleSprite world
     \<Rightarrow> ref list \<times> SpriteFactory \<times> ParticleSprite world" where
  "GetSprites [] s = ([], s)"
| "GetSprites (a # as) s =
     (let (r, s1) = (case a of (name, color, width, height) \<Rightarrow>
                       GetSprite name color width height s);
          (rs, s2) = GetSprites as s1
      in (r # rs, s2))"

fun PlantTrees ::
  "(int \<times> int \<times> string \<times> string \<times> string) list \<Rightarrow> Forest \<times> TreeType world
     \<Rightarrow> Forest \<times> TreeType world" where
  "PlantTrees [] s = s"
| "PlantTrees (a # as) s =
     PlantTrees as (case a of (x, y, name, color, texture) \<Rightarrow> PlantTree x y name color texture s)"

section \<open>Adapter: the media player\<close>

text \<open>
  The adapter program is the Go source in
  \<^verbatim>\<open>src/structural-patterns/facade/README.md\<close>, after the documentation.
  \<open>strings.ToLower\<close> of the Go library maps a string of ASCII bytes byte by byte,
  \<open>A\<close> to \<open>Z\<close> onto \<open>a\<close> to \<open>z\<close>; a string with a byte of \<open>0x80\<close> or more is
  mapped rune by rune through the Unicode tables, which are not part of this development and
  are the parameter \<open>unicode_lower\<close>. An \<open>error\<close> is its message, \<open>nil\<close> is
  \<^const>\<open>None\<close>.
\<close>

definition ascii_lower :: "char \<Rightarrow> char" where
  "ascii_lower c =
     (if (65::nat) \<le> of_char c \<and> of_char c \<le> (90::nat) then char_of (of_char c + (32::nat))
      else c)"

definition ToLower :: "(string \<Rightarrow> string) \<Rightarrow> string \<Rightarrow> string" where
  "ToLower unicode_lower s =
     (if list_all (\<lambda>c. of_char c < (128::nat)) s then map ascii_lower s else unicode_lower s)"

datatype AudioPlayer = AudioPlayer

datatype VideoPlayer = VideoPlayer

datatype VLCPlayer = VLCPlayer

definition PlayAudio :: "AudioPlayer \<Rightarrow> string \<Rightarrow> string list" where
  "PlayAudio a fileName = [''[AudioPlayer] Playing audio file: '' @ fileName @ nl]"

definition PlayVideo :: "VideoPlayer \<Rightarrow> string \<Rightarrow> string list" where
  "PlayVideo v fileName = [''[VideoPlayer] Playing video file: '' @ fileName @ nl]"

definition PlayVLC :: "VLCPlayer \<Rightarrow> string \<Rightarrow> string list" where
  "PlayVLC v fileName = [''[VLCPlayer] Playing VLC media: '' @ fileName @ nl]"

record MediaAdapter =
  audioPlayer :: AudioPlayer
  videoPlayer :: VideoPlayer
  vlcPlayer :: VLCPlayer

definition NewMediaAdapter :: MediaAdapter where
  "NewMediaAdapter =
     \<lparr>audioPlayer = AudioPlayer, videoPlayer = VideoPlayer, vlcPlayer = VLCPlayer\<rparr>"

text \<open>\<open>MediaAdapter.Play\<close>: what it writes to the console, and the error it returns.\<close>

definition MediaAdapter_Play ::
  "(string \<Rightarrow> string) \<Rightarrow> MediaAdapter \<Rightarrow> string \<Rightarrow> string \<Rightarrow> string list \<times> string option" where
  "MediaAdapter_Play unicode_lower m mediaType fileName =
     (let t = ToLower unicode_lower mediaType
      in if t = ''mp3'' \<or> t = ''wav'' \<or> t = ''audio'' then
           (PlayAudio (audioPlayer m) fileName, None)
         else if t = ''mp4'' \<or> t = ''avi'' \<or> t = ''video'' then
           (PlayVideo (videoPlayer m) fileName, None)
         else if t = ''vlc'' \<or> t = ''mkv'' then
           (PlayVLC (vlcPlayer m) fileName, None)
         else ([], Some (''unsupported media type: '' @ mediaType)))"

section \<open>Proxy: the protected database\<close>

text \<open>
  The proxy program is \<^verbatim>\<open>src/unnamed/part_002\<close>.
  A slice expression \<open>s[:n]\<close> on a string panics at run time when \<open>n\<close> is more than
  the length of \<open>s\<close>; a panic is the left summand of the result. The proxy is the one
  \<open>NewDatabaseProxy\<close> builds, with its real database.
\<close>

datatype panic = SliceBoundsOutOfRange nat nat

definition slice_to :: "string \<Rightarrow> nat \<Rightarrow> panic + string" where
  "slice_to s n = (if n \<le> length s then Inr (take n s) else Inl (SliceBoundsOutOfRange n (length s)))"

record RealDatabase =
  connectionString :: string

definition NewRealDatabase :: "string \<Rightarrow> string list \<times> RealDatabase" where
  "NewRealDatabase cs =
     ([''[RealDatabase] Connecting to database: '' @ cs @ nl], \<lparr>connectionString = cs\<rparr>)"

definition RealDatabase_Query :: "RealDatabase \<Rightarrow> string \<Rightarrow> string list \<times> string" where
  "RealDatabase_Query d sql =
     ([''[RealDatabase] Executing query: '' @ sql @ nl], ''QUERY_RESULT'')"

record DatabaseProxy =
  userRole :: string
  realDatabase :: RealDatabase

definition NewDatabaseProxy :: "string \<Rightarrow> string list \<times> DatabaseProxy" where
  "NewDatabaseProxy role =
     (let (out, db) = NewRealDatabase ''localhost:5432/mydb''
      in (out, \<lparr>userRole = role, realDatabase = db\<rparr>))"

definition checkAccess :: "DatabaseProxy \<Rightarrow> string \<Rightarrow> panic + bool" where
  "checkAccess p sql =
     (if userRole p = ''admin'' then Inr True
      else if userRole p = ''user'' then
        (case slice_to sql 6 of
           Inl e \<Rightarrow> Inl e
         | Inr a \<Rightarrow>
             if a = ''SELECT'' then Inr True
             else (case slice_to sql 6 of
                     Inl e \<Rightarrow> Inl e
                   | Inr b \<Rightarrow> if b = ''select'' then Inr True else Inr False))
      else Inr False)"

definition logQuery :: "DatabaseProxy \<Rightarrow> string \<Rightarrow> string list" where
  "logQuery p sql =
     [''[DatabaseProxy] Logging query: '' @ sql @ '' by user role: '' @ userRole p @ nl]"

text \<open>
  \<open>DatabaseProxy.Query\<close>: what it has written to the console when it returns or panics,
  and the string it returns or the panic.
\<close>

definition DatabaseProxy_Query :: "DatabaseProxy \<Rightarrow> string \<Rightarrow> string list \<times> (panic + string)" where
  "DatabaseProxy_Query p sql =
     (let out1 = [nl @ ''[DatabaseProxy] User role: '' @ userRole p @ '' attempting query'' @ nl]
      in case checkAccess p sql of
           Inl e \<Rightarrow> (out1, Inl e)
         | Inr ok \<Rightarrow>
             if \<not> ok then
               (out1 @ [''[DatabaseProxy] ACCESS DENIED - Insufficient permissions'' @ nl],
                Inr ''ACCESS_DENIED'')
             else
               (let out2 = [''[DatabaseProxy] Access granted - forwarding to real database'' @ nl];
                    (out3, result) = RealDatabase_Query (realDatabase p) sql;
                    out4 = logQuery p sql
                in (out1 @ out2 @ out3 @ out4, Inr result)))"

section \<open>Proxy: the bank account\<close>

text \<open>
  The balance and the amounts are \<open>float64\<close>. Their arithmetic is not modelled: the
  type of the values is the parameter \<open>'f\<close>, and the comparison \<open>>=\<close>, the subtraction
  and the verb \<open>%.2f\<close> are the fields of a record the functions take. The counter of
  failed attempts is an \<open>int\<close>, 64 bits wide, compared as a signed number.
\<close>

record 'f float64 =
  f_ge :: "'f \<Rightarrow> 'f \<Rightarrow> bool"
  f_sub :: "'f \<Rightarrow> 'f \<Rightarrow> 'f"
  f_fmt2 :: "'f \<Rightarrow> string"

record 'f RealBankAccount =
  accountNumber :: string
  balance :: 'f

definition NewRealBankAccount :: "string \<Rightarrow> 'f \<Rightarrow> 'f RealBankAccount" where
  "NewRealBankAccount acc bal = \<lparr>accountNumber = acc, balance = bal\<rparr>"

definition RealBankAccount_Withdraw ::
  "'f float64 \<Rightarrow> 'f \<Rightarrow> 'f RealBankAccount \<Rightarrow> string list \<times> bool \<times> 'f RealBankAccount" where
  "RealBankAccount_Withdraw fl amount b =
     (if f_ge fl (balance b) amount then
        (let b' = b\<lparr>balance := f_sub fl (balance b) amount\<rparr>
         in ([''[RealBankAccount] Withdrew $'' @ f_fmt2 fl amount @ ''. New balance: $''
                @ f_fmt2 fl (balance b') @ nl], True, b'))
      else
        ([''[RealBankAccount] Insufficient funds. Balance: $'' @ f_fmt2 fl (balance b) @ nl],
         False, b))"

definition RealBankAccount_GetBalance :: "'f RealBankAccount \<Rightarrow> 'f" where
  "RealBankAccount_GetBalance b = balance b"

record 'f BankAccountProxy =
  pin :: string
  realAccount :: "'f RealBankAccount"
  attemptCount :: "64 word"
  locked :: bool

definition NewBankAccountProxy :: "string \<Rightarrow> 'f \<Rightarrow> string \<Rightarrow> 'f BankAccountProxy" where
  "NewBankAccountProxy acc bal p =
     \<lparr>pin = p, realAccount = NewRealBankAccount acc bal, attemptCount = 0, locked = False\<rparr>"

definition BankAccountProxy_Withdraw ::
  "'f float64 \<Rightarrow> 'f \<Rightarrow> 'f BankAccountProxy \<Rightarrow> string list \<times> bool \<times> 'f BankAccountProxy" where
  "BankAccountProxy_Withdraw fl amount p =
     (let (out, ok, b) = RealBankAccount_Withdraw fl amount (realAccount p)
      in (out, ok, p\<lparr>realAccount := b\<rparr>))"

definition BankAccountProxy_GetBalance :: "'f BankAccountProxy \<Rightarrow> 'f" where
  "BankAccountProxy_GetBalance p = RealBankAccount_GetBalance (realAccount p)"

definition AuthenticateAndWithdraw ::
  "'f float64 \<Rightarrow> string \<Rightarrow> 'f \<Rightarrow> 'f BankAccountProxy
     \<Rightarrow> string list \<times> bool \<times> 'f BankAccountProxy" where
  "AuthenticateAndWithdraw fl enteredPin amount p =
     (let out1 = [nl @ ''[BankAccountProxy] Authentication attempt...'' @ nl]
      in if locked p then
           (out1 @ [''[BankAccountProxy] Account is LOCKED due to multiple failed attempts'' @ nl],
            False, p)
         else if enteredPin \<noteq> pin p then
           (let p1 = p\<lparr>attemptCount := attemptCount p + 1\<rparr>;
                out2 = [''[BankAccountProxy] Invalid PIN. Attempt ''
                          @ fmt_d (sint (attemptCount p1)) @ ''/3'' @ nl]
            in if 3 \<le>s attemptCount p1 then
                 (out1 @ out2
                    @ [''[BankAccountProxy] Account LOCKED after 3 failed attempts'' @ nl],
                  False, p1\<lparr>locked := True\<rparr>)
               else (out1 @ out2, False, p1))
         else
           (let out2 = [''[BankAccountProxy] Authentication successful'' @ nl];
                p1 = p\<lparr>attemptCount := 0\<rparr>;
                (out3, ok, p2) = BankAccountProxy_Withdraw fl amount p1
            in (out1 @ out2 @ out3, ok, p2)))"

subsection \<open>Clients: a sequence of calls on one bank account proxy\<close>

text \<open>
  The three methods of the proxy are all a client has: the fields are not exported and no
  other function of the program writes them. \<open>account_calls\<close> makes a list of calls in
  order and returns the proxy after the last.
\<close>

datatype 'f account_call =
    CallWithdraw 'f
  | CallGetBalance
  | CallAuthenticateAndWithdraw string 'f

fun account_step :: "'f float64 \<Rightarrow> 'f account_call \<Rightarrow> 'f BankAccountProxy \<Rightarrow> 'f BankAccountProxy" where
  "account_step fl (CallWithdraw amount) p = snd (snd (BankAccountProxy_Withdraw fl amount p))"
| "account_step fl CallGetBalance p = p"
| "account_step fl (CallAuthenticateAndWithdraw enteredPin amount) p =
     snd (snd (AuthenticateAndWithdraw fl enteredPin amount p))"

fun account_calls ::
  "'f float64 \<Rightarrow> 'f account_call list \<Rightarrow> 'f BankAccountProxy \<Rightarrow> 'f BankAccountProxy" where
  "account_calls fl [] p = p"
| "account_calls fl (c # cs) p = account_calls fl cs (account_step fl c p)"

section \<open>Properties of the flyweight caches\<close>

lemma GetTreeType_acquire:
  "apsnd tree_st (GetTreeType name color texture s) = acquire (tree_request (name, color, texture)) (tree_st s)"
  by (simp add: GetTreeType_def acquire_def tree_request_def tree_st_def NewTreeType_def
      alloc_def print_def Let_def split: option.split)

lemma acquire_cases:
  "acquire q s = (r, s') \<Longrightarrow>
     (fmlookup (fst s) (fst q) = Some r \<and> fst s' = fst s \<and> heap (snd s') = heap (snd s)) \<or>
     (fmlookup (fst s) (fst q) = None \<and> r = length (heap (snd s)) \<and>
      fst s' = fmupd (fst q) r (fst s) \<and> heap (snd s') = heap (snd s) @ [fst (snd q)])"
  by (auto simp: acquire_def Let_def split: option.splits)

lemma acquire_lookup: "acquire q s = (r, s') \<Longrightarrow> fmlookup (fst s') (fst q) = Some r"
  by (drule acquire_cases) auto

lemma acquire_keeps:
  "acquire q s = (r, s') \<Longrightarrow> fmlookup (fst s) k = Some v \<Longrightarrow> fmlookup (fst s') k = Some v"
  by (drule acquire_cases) auto

lemma acquire_dom: "acquire q s = (r, s') \<Longrightarrow> fmdom (fst s') = finsert (fst q) (fmdom (fst s))"
  by (drule acquire_cases) (auto simp: fmlookup_dom_iff)

lemma acquire_heap:
  "acquire q s = (r, s') \<Longrightarrow>
     heap (snd s') = heap (snd s) @ (if fst q |\<in>| fmdom (fst s) then [] else [fst (snd q)])"
  by (drule acquire_cases) (auto simp: fmlookup_dom_iff)

lemma acquire_ok: "acquire q s = (r, s') \<Longrightarrow> cache_ok s \<Longrightarrow> cache_ok s'"
  apply (drule acquire_cases)
  apply (erule disjE)
   apply (simp add: cache_ok_def)
  apply (clarsimp simp: cache_ok_def)
  apply (intro conjI allI impI)
   apply (auto split: if_splits simp: less_Suc_eq)
  done

lemma acquire_twice:
  assumes "acquire q s = (r, s1)" and "acquire q' s1 = (r', s2)" and "fst q' = fst q"
  shows "r' = r \<and> fst s2 = fst s1 \<and> heap (snd s2) = heap (snd s1)"
proof -
  have "fmlookup (fst s1) (fst q') = Some r"
    using acquire_lookup [OF assms(1)] assms(3) by simp
  with acquire_cases [OF assms(2)] show ?thesis by auto
qed

lemma acquire_all_ok: "cache_ok s \<Longrightarrow> acquire_all qs s = (rs, s') \<Longrightarrow> cache_ok s'"
proof (induction qs arbitrary: s rs s')
  case Nil
  then show ?case by simp
next
  case (Cons q qs)
  obtain r s1 where a: "acquire q s = (r, s1)" by (cases "acquire q s")
  obtain rs1 s2 where b: "acquire_all qs s1 = (rs1, s2)" by (cases "acquire_all qs s1")
  from Cons.prems(2) a b have "s' = s2" by simp
  with Cons.IH [OF acquire_ok [OF a Cons.prems(1)] b] show ?case by simp
qed

lemma acquire_all_length: "acquire_all qs s = (rs, s') \<Longrightarrow> length rs = length qs"
  by (induction qs arbitrary: s rs s') (auto split: prod.splits)

lemma acquire_all_keeps:
  "acquire_all qs s = (rs, s') \<Longrightarrow> fmlookup (fst s) k = Some v \<Longrightarrow> fmlookup (fst s') k = Some v"
proof (induction qs arbitrary: s rs s')
  case Nil
  then show ?case by simp
next
  case (Cons q qs)
  obtain r s1 where a: "acquire q s = (r, s1)" by (cases "acquire q s")
  obtain rs1 s2 where b: "acquire_all qs s1 = (rs1, s2)" by (cases "acquire_all qs s1")
  from Cons.prems(1) a b have "s' = s2" by simp
  with Cons.IH [OF b acquire_keeps [OF a Cons.prems(2)]] show ?case by simp
qed

lemma acquire_all_lookup:
  "acquire_all qs s = (rs, s') \<Longrightarrow> i < length qs \<Longrightarrow> fmlookup (fst s') (fst (qs ! i)) = Some (rs ! i)"
proof (induction qs arbitrary: s rs s' i)
  case Nil
  then show ?case by simp
next
  case (Cons q qs)
  obtain r s1 where a: "acquire q s = (r, s1)" by (cases "acquire q s")
  obtain rs1 s2 where b: "acquire_all qs s1 = (rs1, s2)" by (cases "acquire_all qs s1")
  from Cons.prems(1) a b have c: "s' = s2" "rs = r # rs1" by simp_all
  show ?case
  proof (cases i)
    case 0
    with acquire_all_keeps [OF b acquire_lookup [OF a]] c show ?thesis by simp
  next
    case (Suc j)
    with Cons.prems(2) have "j < length qs" by simp
    from Cons.IH [OF b this] c Suc show ?thesis by simp
  qed
qed

lemma acquire_all_dom:
  "acquire_all qs s = (rs, s') \<Longrightarrow> fmdom (fst s') = fmdom (fst s) |\<union>| fset_of_list (map fst qs)"
proof (induction qs arbitrary: s rs s')
  case Nil
  then show ?case by simp
next
  case (Cons q qs)
  obtain r s1 where a: "acquire q s = (r, s1)" by (cases "acquire q s")
  obtain rs1 s2 where b: "acquire_all qs s1 = (rs1, s2)" by (cases "acquire_all qs s1")
  from Cons.prems(1) a b have c: "s' = s2" by simp
  from Cons.IH [OF b] acquire_dom [OF a] c show ?case by auto
qed

lemma acquire_all_heap:
  "acquire_all qs s = (rs, s') \<Longrightarrow>
     \<exists>xs. heap (snd s') = heap (snd s) @ xs \<and>
          length xs = fcard (fset_of_list (map fst qs) |-| fmdom (fst s))"
proof (induction qs arbitrary: s rs s')
  case Nil
  then show ?case by simp
next
  case (Cons q qs)
  obtain r s1 where a: "acquire q s = (r, s1)" by (cases "acquire q s")
  obtain rs1 s2 where b: "acquire_all qs s1 = (rs1, s2)" by (cases "acquire_all qs s1")
  from Cons.prems(1) a b have c: "s' = s2" by simp
  from Cons.IH [OF b] obtain xs where xs: "heap (snd s2) = heap (snd s1) @ xs"
    "length xs = fcard (fset_of_list (map fst qs) |-| fmdom (fst s1))" by blast
  note d = acquire_dom [OF a] and h = acquire_heap [OF a]
  show ?case
  proof (cases "fst q |\<in>| fmdom (fst s)")
    case True
    then have "fmdom (fst s1) = fmdom (fst s)" using d by auto
    moreover have "fset_of_list (map fst (q # qs)) |-| fmdom (fst s)
        = fset_of_list (map fst qs) |-| fmdom (fst s)" using True by auto
    ultimately show ?thesis using xs h True c by simp
  next
    case False
    have "fset_of_list (map fst (q # qs)) |-| fmdom (fst s)
        = finsert (fst q) (fset_of_list (map fst qs) |-| fmdom (fst s1))"
      using False d by auto
    moreover have "fst q |\<notin>| fset_of_list (map fst qs) |-| fmdom (fst s1)"
      using d by auto
    ultimately have "fcard (fset_of_list (map fst (q # qs)) |-| fmdom (fst s))
        = Suc (length xs)" using xs(2) by (simp add: fcard_finsert_disjoint)
    then show ?thesis using xs(1) h False c by simp
  qed
qed

lemma cache_ok_distinct:
  "cache_ok s \<Longrightarrow> fmlookup (fst s) k = Some r \<Longrightarrow> fmlookup (fst s) k' = Some r' \<Longrightarrow> k \<noteq> k' \<Longrightarrow> r \<noteq> r'"
  unfolding cache_ok_def by blast

lemma cache_ok_valid:
  "cache_ok s \<Longrightarrow> fmlookup (fst s) k = Some r \<Longrightarrow> r < length (heap (snd s))"
  unfolding cache_ok_def by blast

lemma cache_ok_empty: "cache_ok (fmempty, w)"
  by (simp add: cache_ok_def)

subsection \<open>The factory methods are instances of the shared mechanism\<close>

lemma GetStyle_acquire:
  "apsnd style_st (GetStyle font sz color bold italic s)
     = acquire (style_request (font, sz, color, bold, italic)) (style_st s)"
  by (simp add: GetStyle_def acquire_def style_request_def style_st_def NewCharacterStyle_def
      alloc_def print_def Let_def split: option.split)

lemma GetSprite_acquire:
  "apsnd sprite_st (GetSprite name color width height s)
     = acquire (sprite_request (name, color, width, height)) (sprite_st s)"
  by (simp add: GetSprite_def acquire_def sprite_request_def sprite_st_def NewParticleSprite_def
      alloc_def print_def Let_def split: option.split)

lemma GetTreeType_acquireD:
  "GetTreeType name color texture s = (r, s1) \<Longrightarrow>
     acquire (tree_request (name, color, texture)) (tree_st s) = (r, tree_st s1)"
  using GetTreeType_acquire [of name color texture s] by simp

lemma GetStyle_acquireD:
  "GetStyle font sz color bold italic s = (r, s1) \<Longrightarrow>
     acquire (style_request (font, sz, color, bold, italic)) (style_st s) = (r, style_st s1)"
  using GetStyle_acquire [of font sz color bold italic s] by simp

lemma GetSprite_acquireD:
  "GetSprite name color width height s = (r, s1) \<Longrightarrow>
     acquire (sprite_request (name, color, width, height)) (sprite_st s) = (r, sprite_st s1)"
  using GetSprite_acquire [of name color width height s] by simp

lemma GetTreeTypes_acquire_allD:
  "GetTreeTypes as s = (rs, s') \<Longrightarrow>
     acquire_all (map tree_request as) (tree_st s) = (rs, tree_st s')"
proof (induction as arbitrary: s rs s')
  case Nil
  then show ?case by simp
next
  case (Cons a as)
  obtain name color texture where a: "a = (name, color, texture)" by (cases a)
  obtain r s1 where g: "GetTreeType name color texture s = (r, s1)"
    by (cases "GetTreeType name color texture s")
  obtain rs1 s2 where h: "GetTreeTypes as s1 = (rs1, s2)"
    by (cases "GetTreeTypes as s1")
  from Cons.prems a g h have e: "rs = r # rs1" "s' = s2" by simp_all
  show ?case
    using Cons.IH [OF h] GetTreeType_acquireD [OF g] a e by simp
qed

lemma GetStyles_acquire_allD:
  "GetStyles as s = (rs, s') \<Longrightarrow>
     acquire_all (map style_request as) (style_st s) = (rs, style_st s')"
proof (induction as arbitrary: s rs s')
  case Nil
  then show ?case by simp
next
  case (Cons a as)
  obtain font sz color bold italic where a: "a = (font, sz, color, bold, italic)" by (cases a)
  obtain r s1 where g: "GetStyle font sz color bold italic s = (r, s1)"
    by (cases "GetStyle font sz color bold italic s")
  obtain rs1 s2 where h: "GetStyles as s1 = (rs1, s2)"
    by (cases "GetStyles as s1")
  from Cons.prems a g h have e: "rs = r # rs1" "s' = s2" by simp_all
  show ?case
    using Cons.IH [OF h] GetStyle_acquireD [OF g] a e by simp
qed

lemma GetSprites_acquire_allD:
  "GetSprites as s = (rs, s') \<Longrightarrow>
     acquire_all (map sprite_request as) (sprite_st s) = (rs, sprite_st s')"
proof (induction as arbitrary: s rs s')
  case Nil
  then show ?case by simp
next
  case (Cons a as)
  obtain name color width height where a: "a = (name, color, width, height)" by (cases a)
  obtain r s1 where g: "GetSprite name color width height s = (r, s1)"
    by (cases "GetSprite name color width height s")
  obtain rs1 s2 where h: "GetSprites as s1 = (rs1, s2)"
    by (cases "GetSprites as s1")
  from Cons.prems a g h have e: "rs = r # rs1" "s' = s2" by simp_all
  show ?case
    using Cons.IH [OF h] GetSprite_acquireD [OF g] a e by simp
qed

lemma request_key [simp]:
  "fst (tree_request (name, color, texture)) = tree_key name color texture"
  "fst (style_request (font, sz, color, bold, italic)) = style_key font sz color bold italic"
  "fst (sprite_request (name, color, width, height)) = sprite_key name color width height"
  by (simp_all add: tree_request_def style_request_def sprite_request_def)

lemma st_simps [simp]:
  "fst (tree_st ts) = treeTypes (fst ts)" "snd (tree_st ts) = snd ts"
  "fst (style_st ss) = styles (fst ss)" "snd (style_st ss) = snd ss"
  "fst (sprite_st ps) = sprites (fst ps)" "snd (sprite_st ps) = snd ps"
  by (simp_all add: tree_st_def style_st_def sprite_st_def)

lemma acquire_count:
  "acquire q s = (r, s') \<Longrightarrow>
     int (fcard (fmdom (fst s'))) =
       int (fcard (fmdom (fst s))) + (if fst q |\<in>| fmdom (fst s) then 0 else 1)"
  by (drule acquire_dom) (simp add: fcard_finsert_if)

lemma acquire_later_distinct:
  assumes ok: "cache_ok s0"
    and a: "acquire qa s0 = (r1, s1)"
    and m: "acquire_all mid s1 = (rs, s2)"
    and b: "acquire qb s2 = (r2, s3)"
    and ne: "fst qa \<noteq> fst qb"
  shows "r1 \<noteq> r2"
proof -
  have ok3: "cache_ok s3"
    using acquire_ok [OF b acquire_all_ok [OF acquire_ok [OF a ok] m]] .
  have "fmlookup (fst s3) (fst qa) = Some r1"
    using acquire_keeps [OF b acquire_all_keeps [OF m acquire_lookup [OF a]]] .
  moreover have "fmlookup (fst s3) (fst qb) = Some r2"
    using acquire_lookup [OF b] .
  ultimately show ?thesis
    using cache_ok_distinct [OF ok3 _ _ ne] by blast
qed

lemma new_factories_ok:
  "cache_ok (tree_st (NewTreeTypeFactory, tw))"
  "cache_ok (style_st (NewStyleFactory, sw))"
  "cache_ok (sprite_st (NewSpriteFactory, pw))"
  by (simp_all add: cache_ok_def tree_st_def style_st_def sprite_st_def
      NewTreeTypeFactory_def NewStyleFactory_def NewSpriteFactory_def)

lemma GetTreeTypes_ok: "GetTreeTypes as (NewTreeTypeFactory, w) = (rs, s) \<Longrightarrow> cache_ok (tree_st s)"
  using acquire_all_ok [OF new_factories_ok(1) GetTreeTypes_acquire_allD] .

lemma GetStyles_ok: "GetStyles as (NewStyleFactory, w) = (rs, s) \<Longrightarrow> cache_ok (style_st s)"
  using acquire_all_ok [OF new_factories_ok(2) GetStyles_acquire_allD] .

lemma GetSprites_ok: "GetSprites as (NewSpriteFactory, w) = (rs, s) \<Longrightarrow> cache_ok (sprite_st s)"
  using acquire_all_ok [OF new_factories_ok(3) GetSprites_acquire_allD] .

lemma acquire_later_same:
  assumes a: "acquire qa s0 = (r1, s1)"
    and m: "acquire_all mid s1 = (rs, s2)"
    and b: "acquire qb s2 = (r2, s3)"
    and eq: "fst qa = fst qb"
  shows "r2 = r1 \<and> fst s3 = fst s2 \<and> heap (snd s3) = heap (snd s2)"
proof -
  have "fmlookup (fst s2) (fst qb) = Some r1"
    using acquire_all_keeps [OF m acquire_lookup [OF a]] eq by simp
  with acquire_cases [OF b] show ?thesis by auto
qed

lemma acquire_first_object:
  "acquire q s = (r, s') \<Longrightarrow> fmlookup (fst s) (fst q) = None \<Longrightarrow> heap (snd s') ! r = fst (snd q)"
  by (drule acquire_cases) auto

lemma acquire_all_new_keys:
  assumes "acquire_all qs s = (rs, s')"
  shows "fcard (fmdom (fst s') |-| fmdom (fst s)) \<le> length qs"
proof -
  have "fmdom (fst s') |-| fmdom (fst s) |\<subseteq>| fset_of_list (map fst qs)"
    using acquire_all_dom [OF assms] by auto
  then have "fcard (fmdom (fst s') |-| fmdom (fst s)) \<le> fcard (fset_of_list (map fst qs))"
    by (rule fcard_mono)
  also have "\<dots> = card (set (map fst qs))"
    by (simp add: fcard.rep_eq fset_of_list.rep_eq)
  also have "\<dots> \<le> length qs"
    using card_length [of "map fst qs"] by simp
  finally show ?thesis .
qed

lemma acquire_all_object_kept:
  assumes ok: "cache_ok s" and run: "acquire_all qs s = (rs, s')"
    and k: "fmlookup (fst s) k = Some r"
  shows "fmlookup (fst s') k = Some r \<and> r < length (heap (snd s))
         \<and> heap (snd s') ! r = heap (snd s) ! r"
proof -
  have v: "r < length (heap (snd s))" using cache_ok_valid [OF ok k] .
  obtain xs where "heap (snd s') = heap (snd s) @ xs"
    using acquire_all_heap [OF run] by blast
  with v have "heap (snd s') ! r = heap (snd s) ! r" by (simp add: nth_append)
  with v acquire_all_keeps [OF run k] show ?thesis by simp
qed

lemma acquire_all_heap_prefix:
  "acquire_all qs s = (rs, s') \<Longrightarrow> take (length (heap (snd s))) (heap (snd s')) = heap (snd s)"
  by (drule acquire_all_heap) auto

lemma acquire_all_from_empty:
  assumes "acquire_all qs s = (rs, s')" and "fst s = fmempty"
  shows "fcard (fmdom (fst s')) = card (set (map fst qs))"
    and "length (heap (snd s')) = length (heap (snd s)) + card (set (map fst qs))"
proof -
  have c: "fcard (fset_of_list (map fst qs)) = card (set (map fst qs))"
    by (simp add: fcard.rep_eq fset_of_list.rep_eq)
  show "fcard (fmdom (fst s')) = card (set (map fst qs))"
    using acquire_all_dom [OF assms(1)] assms(2) c by simp
  obtain xs where "heap (snd s') = heap (snd s) @ xs"
    "length xs = fcard (fset_of_list (map fst qs) |-| fmdom (fst s))"
    using acquire_all_heap [OF assms(1)] by blast
  then show "length (heap (snd s')) = length (heap (snd s)) + card (set (map fst qs))"
    using assms(2) c by simp
qed

lemma tree_request_keys:
  "map fst (map tree_request as) = map (\<lambda>(name, color, texture). tree_key name color texture) as"
  by (simp add: tree_request_def split_def)

lemma PlantTrees_GetTreeTypes:
  "PlantTrees ps s = (f', w') \<Longrightarrow>
     \<exists>rs. GetTreeTypes (map (\<lambda>(x, y, a). a) ps) (factory (fst s), snd s) = (rs, factory f', w')
          \<and> trees f' = trees (fst s) @ map (\<lambda>((x, y, a), r). NewTree x y r) (zip ps rs)"
proof (induction ps arbitrary: s f' w')
  case Nil
  then show ?case by auto
next
  case (Cons p ps)
  obtain x y name color texture where p: "p = (x, y, name, color, texture)" by (cases p)
  obtain r fac w1 where g: "GetTreeType name color texture (factory (fst s), snd s) = (r, fac, w1)"
    by (cases "GetTreeType name color texture (factory (fst s), snd s)")
  define s1 where "s1 = ((fst s)\<lparr>trees := trees (fst s) @ [NewTree x y r], factory := fac\<rparr>, w1)"
  have step: "PlantTree x y name color texture s = s1"
    using g by (simp add: PlantTree_def s1_def Let_def)
  with Cons.prems p have "PlantTrees ps s1 = (f', w')" by simp
  from Cons.IH [OF this] obtain rs where
    rs: "GetTreeTypes (map (\<lambda>(x, y, a). a) ps) (fac, w1) = (rs, factory f', w')"
    "trees f' = trees (fst s) @ [NewTree x y r] @ map (\<lambda>((x, y, a), r). NewTree x y r) (zip ps rs)"
    by (auto simp: s1_def)
  have "GetTreeTypes (map (\<lambda>(x, y, a). a) (p # ps)) (factory (fst s), snd s)
          = (r # rs, factory f', w')"
    using p g rs(1) by simp
  moreover have "trees f' = trees (fst s) @ map (\<lambda>((x, y, a), r). NewTree x y r) (zip (p # ps) (r # rs))"
    using p rs(2) by simp
  ultimately show ?case by blast
qed

text \<open>The equations that evaluate a factory method on given attributes.\<close>

lemmas tree_eval = GetTreeType_def NewTreeTypeFactory_def tree_key_def NewTreeType_def
  alloc_def print_def Let_def
lemmas style_eval = GetStyle_def NewStyleFactory_def style_key_def NewCharacterStyle_def
  alloc_def print_def Let_def fmt_t_def
lemmas sprite_eval = GetSprite_def NewSpriteFactory_def sprite_key_def NewParticleSprite_def
  alloc_def print_def Let_def

section \<open>The claims about the flyweight caches\<close>

text \<open>
  Claim C1. For each of the three factories (\<open>TreeTypeFactory.GetTreeType\<close>,
  \<open>StyleFactory.GetStyle\<close>, \<open>SpriteFactory.GetSprite\<close>), in any state of the
  factory and for any attributes: two consecutive calls with the same attributes return the
  same pointer, the second call allocates no object (the heap is the same after it as before
  it), and the map and the number of its entries are the same after the second call as
  before it.
\<close>

theorem repeated_request_returns_same_descriptor:
  "(let (r1, s1) = GetTreeType name color texture ts;
        (r2, s2) = GetTreeType name color texture s1
    in r2 = r1 \<and> heap (snd s2) = heap (snd s1) \<and> treeTypes (fst s2) = treeTypes (fst s1)
       \<and> GetTotalTypes (fst s2) = GetTotalTypes (fst s1))
   \<and> (let (r1, s1) = GetStyle font sz scolor bold italic ss;
           (r2, s2) = GetStyle font sz scolor bold italic s1
       in r2 = r1 \<and> heap (snd s2) = heap (snd s1) \<and> styles (fst s2) = styles (fst s1)
          \<and> GetTotalStyles (fst s2) = GetTotalStyles (fst s1))
   \<and> (let (r1, s1) = GetSprite pname pcolor width height ps;
           (r2, s2) = GetSprite pname pcolor width height s1
       in r2 = r1 \<and> heap (snd s2) = heap (snd s1) \<and> sprites (fst s2) = sprites (fst s1)
          \<and> GetTotalSprites (fst s2) = GetTotalSprites (fst s1))"
proof (intro conjI)
  obtain r1 s1 where a: "GetTreeType name color texture ts = (r1, s1)"
    by (cases "GetTreeType name color texture ts")
  obtain r2 s2 where b: "GetTreeType name color texture s1 = (r2, s2)"
    by (cases "GetTreeType name color texture s1")
  from acquire_twice [OF GetTreeType_acquireD [OF a] GetTreeType_acquireD [OF b]]
  show "let (r1, s1) = GetTreeType name color texture ts;
            (r2, s2) = GetTreeType name color texture s1
        in r2 = r1 \<and> heap (snd s2) = heap (snd s1) \<and> treeTypes (fst s2) = treeTypes (fst s1)
           \<and> GetTotalTypes (fst s2) = GetTotalTypes (fst s1)"
    using a b by (simp add: GetTotalTypes_def)
next
  obtain r1 s1 where a: "GetStyle font sz scolor bold italic ss = (r1, s1)"
    by (cases "GetStyle font sz scolor bold italic ss")
  obtain r2 s2 where b: "GetStyle font sz scolor bold italic s1 = (r2, s2)"
    by (cases "GetStyle font sz scolor bold italic s1")
  from acquire_twice [OF GetStyle_acquireD [OF a] GetStyle_acquireD [OF b]]
  show "let (r1, s1) = GetStyle font sz scolor bold italic ss;
            (r2, s2) = GetStyle font sz scolor bold italic s1
        in r2 = r1 \<and> heap (snd s2) = heap (snd s1) \<and> styles (fst s2) = styles (fst s1)
           \<and> GetTotalStyles (fst s2) = GetTotalStyles (fst s1)"
    using a b by (simp add: GetTotalStyles_def)
next
  obtain r1 s1 where a: "GetSprite pname pcolor width height ps = (r1, s1)"
    by (cases "GetSprite pname pcolor width height ps")
  obtain r2 s2 where b: "GetSprite pname pcolor width height s1 = (r2, s2)"
    by (cases "GetSprite pname pcolor width height s1")
  from acquire_twice [OF GetSprite_acquireD [OF a] GetSprite_acquireD [OF b]]
  show "let (r1, s1) = GetSprite pname pcolor width height ps;
            (r2, s2) = GetSprite pname pcolor width height s1
        in r2 = r1 \<and> heap (snd s2) = heap (snd s1) \<and> sprites (fst s2) = sprites (fst s1)
           \<and> GetTotalSprites (fst s2) = GetTotalSprites (fst s1)"
    using a b by (simp add: GetTotalSprites_def)
qed

text \<open>
  Claim C2. On a factory built by its constructor and used through its method only, two
  requests whose keys differ return different pointers, whatever was requested before the
  first and between the two; and a request adds exactly one entry to the map when its key
  was not there, and none when it was. (Attribute tuples with different keys differ in
  some attribute.)
\<close>

theorem distinct_keys_distinct_descriptors:
  "(tree_key nameA colorA textureA \<noteq> tree_key nameB colorB textureB \<longrightarrow>
      (let (rs0, s0) = GetTreeTypes before (NewTreeTypeFactory, tw);
           (r1, s1) = GetTreeType nameA colorA textureA s0;
           (rs2, s2) = GetTreeTypes between s1;
           (r2, s3) = GetTreeType nameB colorB textureB s2
       in r1 \<noteq> r2))
   \<and> (let (r, s1) = GetTreeType name color texture ts
       in GetTotalTypes (fst s1) = GetTotalTypes (fst ts)
            + (if tree_key name color texture |\<in>| fmdom (treeTypes (fst ts)) then 0 else 1))
   \<and> (style_key fontA sizeA scolorA boldA italicA \<noteq> style_key fontB sizeB scolorB boldB italicB \<longrightarrow>
      (let (rs0, s0) = GetStyles sbefore (NewStyleFactory, sw);
           (r1, s1) = GetStyle fontA sizeA scolorA boldA italicA s0;
           (rs2, s2) = GetStyles sbetween s1;
           (r2, s3) = GetStyle fontB sizeB scolorB boldB italicB s2
       in r1 \<noteq> r2))
   \<and> (let (r, s1) = GetStyle font sz scolor bold italic ss
       in GetTotalStyles (fst s1) = GetTotalStyles (fst ss)
            + (if style_key font sz scolor bold italic |\<in>| fmdom (styles (fst ss)) then 0 else 1))
   \<and> (sprite_key pnameA pcolorA widthA heightA \<noteq> sprite_key pnameB pcolorB widthB heightB \<longrightarrow>
      (let (rs0, s0) = GetSprites pbefore (NewSpriteFactory, pw);
           (r1, s1) = GetSprite pnameA pcolorA widthA heightA s0;
           (rs2, s2) = GetSprites pbetween s1;
           (r2, s3) = GetSprite pnameB pcolorB widthB heightB s2
       in r1 \<noteq> r2))
   \<and> (let (r, s1) = GetSprite pname pcolor width height ps
       in GetTotalSprites (fst s1) = GetTotalSprites (fst ps)
            + (if sprite_key pname pcolor width height |\<in>| fmdom (sprites (fst ps)) then 0 else 1))"
proof (intro conjI impI)
  assume ne: "tree_key nameA colorA textureA \<noteq> tree_key nameB colorB textureB"
  obtain rs0 s0 where p: "GetTreeTypes before (NewTreeTypeFactory, tw) = (rs0, s0)"
    by (cases "GetTreeTypes before (NewTreeTypeFactory, tw)")
  obtain r1 s1 where a: "GetTreeType nameA colorA textureA s0 = (r1, s1)"
    by (cases "GetTreeType nameA colorA textureA s0")
  obtain rs2 s2 where m: "GetTreeTypes between s1 = (rs2, s2)"
    by (cases "GetTreeTypes between s1")
  obtain r2 s3 where b: "GetTreeType nameB colorB textureB s2 = (r2, s3)"
    by (cases "GetTreeType nameB colorB textureB s2")
  have "r1 \<noteq> r2"
    using acquire_later_distinct [OF GetTreeTypes_ok [OF p] GetTreeType_acquireD [OF a]
        GetTreeTypes_acquire_allD [OF m] GetTreeType_acquireD [OF b]] ne
    by simp
  then show "let (rs0, s0) = GetTreeTypes before (NewTreeTypeFactory, tw);
           (r1, s1) = GetTreeType nameA colorA textureA s0;
           (rs2, s2) = GetTreeTypes between s1;
           (r2, s3) = GetTreeType nameB colorB textureB s2
       in r1 \<noteq> r2"
    using p a m b by simp
next
  obtain r s1 where a: "GetTreeType name color texture ts = (r, s1)"
    by (cases "GetTreeType name color texture ts")
  show "let (r, s1) = GetTreeType name color texture ts
       in GetTotalTypes (fst s1) = GetTotalTypes (fst ts)
            + (if tree_key name color texture |\<in>| fmdom (treeTypes (fst ts)) then 0 else 1)"
    using acquire_count [OF GetTreeType_acquireD [OF a]] a by (simp add: GetTotalTypes_def)
next
  assume ne: "style_key fontA sizeA scolorA boldA italicA \<noteq> style_key fontB sizeB scolorB boldB italicB"
  obtain rs0 s0 where p: "GetStyles sbefore (NewStyleFactory, sw) = (rs0, s0)"
    by (cases "GetStyles sbefore (NewStyleFactory, sw)")
  obtain r1 s1 where a: "GetStyle fontA sizeA scolorA boldA italicA s0 = (r1, s1)"
    by (cases "GetStyle fontA sizeA scolorA boldA italicA s0")
  obtain rs2 s2 where m: "GetStyles sbetween s1 = (rs2, s2)"
    by (cases "GetStyles sbetween s1")
  obtain r2 s3 where b: "GetStyle fontB sizeB scolorB boldB italicB s2 = (r2, s3)"
    by (cases "GetStyle fontB sizeB scolorB boldB italicB s2")
  have "r1 \<noteq> r2"
    using acquire_later_distinct [OF GetStyles_ok [OF p] GetStyle_acquireD [OF a]
        GetStyles_acquire_allD [OF m] GetStyle_acquireD [OF b]] ne
    by simp
  then show "let (rs0, s0) = GetStyles sbefore (NewStyleFactory, sw);
           (r1, s1) = GetStyle fontA sizeA scolorA boldA italicA s0;
           (rs2, s2) = GetStyles sbetween s1;
           (r2, s3) = GetStyle fontB sizeB scolorB boldB italicB s2
       in r1 \<noteq> r2"
    using p a m b by simp
next
  obtain r s1 where a: "GetStyle font sz scolor bold italic ss = (r, s1)"
    by (cases "GetStyle font sz scolor bold italic ss")
  show "let (r, s1) = GetStyle font sz scolor bold italic ss
       in GetTotalStyles (fst s1) = GetTotalStyles (fst ss)
            + (if style_key font sz scolor bold italic |\<in>| fmdom (styles (fst ss)) then 0 else 1)"
    using acquire_count [OF GetStyle_acquireD [OF a]] a by (simp add: GetTotalStyles_def)
next
  assume ne: "sprite_key pnameA pcolorA widthA heightA \<noteq> sprite_key pnameB pcolorB widthB heightB"
  obtain rs0 s0 where p: "GetSprites pbefore (NewSpriteFactory, pw) = (rs0, s0)"
    by (cases "GetSprites pbefore (NewSpriteFactory, pw)")
  obtain r1 s1 where a: "GetSprite pnameA pcolorA widthA heightA s0 = (r1, s1)"
    by (cases "GetSprite pnameA pcolorA widthA heightA s0")
  obtain rs2 s2 where m: "GetSprites pbetween s1 = (rs2, s2)"
    by (cases "GetSprites pbetween s1")
  obtain r2 s3 where b: "GetSprite pnameB pcolorB widthB heightB s2 = (r2, s3)"
    by (cases "GetSprite pnameB pcolorB widthB heightB s2")
  have "r1 \<noteq> r2"
    using acquire_later_distinct [OF GetSprites_ok [OF p] GetSprite_acquireD [OF a]
        GetSprites_acquire_allD [OF m] GetSprite_acquireD [OF b]] ne
    by simp
  then show "let (rs0, s0) = GetSprites pbefore (NewSpriteFactory, pw);
           (r1, s1) = GetSprite pnameA pcolorA widthA heightA s0;
           (rs2, s2) = GetSprites pbetween s1;
           (r2, s3) = GetSprite pnameB pcolorB widthB heightB s2
       in r1 \<noteq> r2"
    using p a m b by simp
next
  obtain r s1 where a: "GetSprite pname pcolor width height ps = (r, s1)"
    by (cases "GetSprite pname pcolor width height ps")
  show "let (r, s1) = GetSprite pname pcolor width height ps
       in GetTotalSprites (fst s1) = GetTotalSprites (fst ps)
            + (if sprite_key pname pcolor width height |\<in>| fmdom (sprites (fst ps)) then 0 else 1)"
    using acquire_count [OF GetSprite_acquireD [OF a]] a by (simp add: GetTotalSprites_def)
qed

theorem distinct_keys_distinct_descriptors_witness:
  "tree_key ''Oak'' ''Green'' ''Rough'' \<noteq> tree_key ''Pine'' ''Dark Green'' ''Smooth''
   \<and> (let (rs0, s0) = GetTreeTypes [] (NewTreeTypeFactory, \<lparr>heap = [], stdout = []\<rparr>);
           (r1, s1) = GetTreeType ''Oak'' ''Green'' ''Rough'' s0;
           (rs2, s2) = GetTreeTypes [] s1;
           (r2, s3) = GetTreeType ''Pine'' ''Dark Green'' ''Smooth'' s2
       in r1 \<noteq> r2)
   \<and> style_key ''Arial'' 12 ''Black'' False False \<noteq> style_key ''Arial'' 12 ''Black'' True False
   \<and> (let (rs0, s0) = GetStyles [] (NewStyleFactory, \<lparr>heap = [], stdout = []\<rparr>);
           (r1, s1) = GetStyle ''Arial'' 12 ''Black'' False False s0;
           (rs2, s2) = GetStyles [] s1;
           (r2, s3) = GetStyle ''Arial'' 12 ''Black'' True False s2
       in r1 \<noteq> r2)
   \<and> sprite_key ''spark'' ''orange'' 16 16 \<noteq> sprite_key ''smoke'' ''gray'' 16 16
   \<and> (let (rs0, s0) = GetSprites [] (NewSpriteFactory, \<lparr>heap = [], stdout = []\<rparr>);
           (r1, s1) = GetSprite ''spark'' ''orange'' 16 16 s0;
           (rs2, s2) = GetSprites [] s1;
           (r2, s3) = GetSprite ''smoke'' ''gray'' 16 16 s2
       in r1 \<noteq> r2)"
proof -
  have k: "tree_key ''Oak'' ''Green'' ''Rough'' \<noteq> tree_key ''Pine'' ''Dark Green'' ''Smooth''"
    "style_key ''Arial'' 12 ''Black'' False False \<noteq> style_key ''Arial'' 12 ''Black'' True False"
    "sprite_key ''spark'' ''orange'' 16 16 \<noteq> sprite_key ''smoke'' ''gray'' 16 16"
    by (simp_all add: tree_key_def style_key_def sprite_key_def fmt_t_def)
  show ?thesis
    using k distinct_keys_distinct_descriptors [where nameA = "''Oak''" and colorA = "''Green''"
        and textureA = "''Rough''" and nameB = "''Pine''" and colorB = "''Dark Green''"
        and textureB = "''Smooth''" and before = "[]" and between = "[]"
        and tw = "\<lparr>heap = [], stdout = []\<rparr>"
        and fontA = "''Arial''" and sizeA = 12 and scolorA = "''Black''" and boldA = False
        and italicA = False and fontB = "''Arial''" and sizeB = 12 and scolorB = "''Black''"
        and boldB = True and italicB = False and sbefore = "[]" and sbetween = "[]"
        and sw = "\<lparr>heap = [], stdout = []\<rparr>"
        and pnameA = "''spark''" and pcolorA = "''orange''" and widthA = 16 and heightA = 16
        and pnameB = "''smoke''" and pcolorB = "''gray''" and widthB = 16 and heightB = 16
        and pbefore = "[]" and pbetween = "[]" and pw = "\<lparr>heap = [], stdout = []\<rparr>"]
    by blast
qed

text \<open>
  Claim C3. The keys of \<open>GetTreeType\<close> are not injective: the different attribute
  tuples \<open>("Red-Oak", "Green", t)\<close> and \<open>("Red", "Oak-Green", t)\<close> have the same key
  for every texture \<open>t\<close>, so in any state of the factory the later of the two requests,
  in either order and whatever is requested between them, returns the pointer the earlier
  returned and allocates nothing; on a new factory the descriptor both share is the one of
  the first request, named \<open>Red-Oak\<close>.
\<close>

theorem separator_in_attribute_collides:
  "tree_key ''Red-Oak'' ''Green'' texture = tree_key ''Red'' ''Oak-Green'' texture
   \<and> (''Red-Oak'', ''Green'', texture) \<noteq> (''Red'', ''Oak-Green'', texture)
   \<and> (let (r1, s1) = GetTreeType ''Red-Oak'' ''Green'' texture ts;
           (rs, s2) = GetTreeTypes between s1;
           (r2, s3) = GetTreeType ''Red'' ''Oak-Green'' texture s2
       in r2 = r1 \<and> heap (snd s3) = heap (snd s2))
   \<and> (let (r1, s1) = GetTreeType ''Red'' ''Oak-Green'' texture ts;
           (rs, s2) = GetTreeTypes between s1;
           (r2, s3) = GetTreeType ''Red-Oak'' ''Green'' texture s2
       in r2 = r1 \<and> heap (snd s3) = heap (snd s2))
   \<and> (let (r1, s1) = GetTreeType ''Red-Oak'' ''Green'' texture (NewTreeTypeFactory, w);
           (r2, s2) = GetTreeType ''Red'' ''Oak-Green'' texture s1
       in heap (snd s2) ! r2
            = \<lparr>name_tt = ''Red-Oak'', color_tt = ''Green'', texture_tt = texture\<rparr>)"
proof (intro conjI)
  show k: "tree_key ''Red-Oak'' ''Green'' texture = tree_key ''Red'' ''Oak-Green'' texture"
    by (simp add: tree_key_def)
  show "(''Red-Oak'', ''Green'', texture) \<noteq> (''Red'', ''Oak-Green'', texture)"
    by simp
  {
    fix n1 c1 n2 c2 :: string
    assume e: "tree_key n1 c1 texture = tree_key n2 c2 texture"
    obtain r1 s1 where a: "GetTreeType n1 c1 texture ts = (r1, s1)"
      by (cases "GetTreeType n1 c1 texture ts")
    obtain rs s2 where m: "GetTreeTypes between s1 = (rs, s2)"
      by (cases "GetTreeTypes between s1")
    obtain r2 s3 where b: "GetTreeType n2 c2 texture s2 = (r2, s3)"
      by (cases "GetTreeType n2 c2 texture s2")
    have "r2 = r1 \<and> heap (snd s3) = heap (snd s2)"
      using acquire_later_same [OF GetTreeType_acquireD [OF a] GetTreeTypes_acquire_allD [OF m]
          GetTreeType_acquireD [OF b]] e by simp
    then have "let (r1, s1) = GetTreeType n1 c1 texture ts;
           (rs, s2) = GetTreeTypes between s1;
           (r2, s3) = GetTreeType n2 c2 texture s2
       in r2 = r1 \<and> heap (snd s3) = heap (snd s2)"
      using a m b by simp
  }
  note both = this
  show "let (r1, s1) = GetTreeType ''Red-Oak'' ''Green'' texture ts;
           (rs, s2) = GetTreeTypes between s1;
           (r2, s3) = GetTreeType ''Red'' ''Oak-Green'' texture s2
       in r2 = r1 \<and> heap (snd s3) = heap (snd s2)"
    using both [OF k] .
  show "let (r1, s1) = GetTreeType ''Red'' ''Oak-Green'' texture ts;
           (rs, s2) = GetTreeTypes between s1;
           (r2, s3) = GetTreeType ''Red-Oak'' ''Green'' texture s2
       in r2 = r1 \<and> heap (snd s3) = heap (snd s2)"
    using both [OF k [symmetric]] .
  obtain r1 s1 where a: "GetTreeType ''Red-Oak'' ''Green'' texture (NewTreeTypeFactory, w) = (r1, s1)"
    by (cases "GetTreeType ''Red-Oak'' ''Green'' texture (NewTreeTypeFactory, w)")
  obtain r2 s2 where b: "GetTreeType ''Red'' ''Oak-Green'' texture s1 = (r2, s2)"
    by (cases "GetTreeType ''Red'' ''Oak-Green'' texture s1")
  have e: "r2 = r1 \<and> heap (snd s2) = heap (snd s1)"
    using acquire_twice [OF GetTreeType_acquireD [OF a] GetTreeType_acquireD [OF b]] k by simp
  have "heap (snd s1) ! r1 = \<lparr>name_tt = ''Red-Oak'', color_tt = ''Green'', texture_tt = texture\<rparr>"
    using acquire_first_object [OF GetTreeType_acquireD [OF a]]
    by (simp add: NewTreeTypeFactory_def tree_request_def)
  with e show "let (r1, s1) = GetTreeType ''Red-Oak'' ''Green'' texture (NewTreeTypeFactory, w);
           (r2, s2) = GetTreeType ''Red'' ''Oak-Green'' texture s1
       in heap (snd s2) ! r2
            = \<lparr>name_tt = ''Red-Oak'', color_tt = ''Green'', texture_tt = texture\<rparr>"
    using a b by simp
qed

text \<open>
  Claim C4. The cache only grows. On a factory built by its constructor and used through its
  method, over any sequence of calls: every key of the map stays in the map with the same
  pointer, the pointer is the address of an allocated object and that object is the same
  afterwards (the old heap is a prefix of the new one); the keys added are at most as many
  as the calls, one at most for each call.
\<close>

theorem cache_only_grows:
  "(let (rs0, s0) = GetTreeTypes before (NewTreeTypeFactory, tw);
        (rs1, s1) = GetTreeTypes calls s0
    in (\<forall>k r. fmlookup (treeTypes (fst s0)) k = Some r \<longrightarrow>
                fmlookup (treeTypes (fst s1)) k = Some r \<and> r < length (heap (snd s0))
                \<and> heap (snd s1) ! r = heap (snd s0) ! r)
       \<and> fmdom (treeTypes (fst s0)) |\<subseteq>| fmdom (treeTypes (fst s1))
       \<and> fcard (fmdom (treeTypes (fst s1)) |-| fmdom (treeTypes (fst s0))) \<le> length calls
       \<and> take (length (heap (snd s0))) (heap (snd s1)) = heap (snd s0))
   \<and> (let (rs0, s0) = GetStyles sbefore (NewStyleFactory, sw);
           (rs1, s1) = GetStyles scalls s0
       in (\<forall>k r. fmlookup (styles (fst s0)) k = Some r \<longrightarrow>
                   fmlookup (styles (fst s1)) k = Some r \<and> r < length (heap (snd s0))
                   \<and> heap (snd s1) ! r = heap (snd s0) ! r)
          \<and> fmdom (styles (fst s0)) |\<subseteq>| fmdom (styles (fst s1))
          \<and> fcard (fmdom (styles (fst s1)) |-| fmdom (styles (fst s0))) \<le> length scalls
          \<and> take (length (heap (snd s0))) (heap (snd s1)) = heap (snd s0))
   \<and> (let (rs0, s0) = GetSprites pbefore (NewSpriteFactory, pw);
           (rs1, s1) = GetSprites pcalls s0
       in (\<forall>k r. fmlookup (sprites (fst s0)) k = Some r \<longrightarrow>
                   fmlookup (sprites (fst s1)) k = Some r \<and> r < length (heap (snd s0))
                   \<and> heap (snd s1) ! r = heap (snd s0) ! r)
          \<and> fmdom (sprites (fst s0)) |\<subseteq>| fmdom (sprites (fst s1))
          \<and> fcard (fmdom (sprites (fst s1)) |-| fmdom (sprites (fst s0))) \<le> length pcalls
          \<and> take (length (heap (snd s0))) (heap (snd s1)) = heap (snd s0))"
proof (intro conjI)
  obtain rs0 s0 where p: "GetTreeTypes before (NewTreeTypeFactory, tw) = (rs0, s0)"
    by (cases "GetTreeTypes before (NewTreeTypeFactory, tw)")
  obtain rs1 s1 where c: "GetTreeTypes calls s0 = (rs1, s1)"
    by (cases "GetTreeTypes calls s0")
  note run = GetTreeTypes_acquire_allD [OF c]
  have "\<forall>k r. fmlookup (treeTypes (fst s0)) k = Some r \<longrightarrow>
                fmlookup (treeTypes (fst s1)) k = Some r \<and> r < length (heap (snd s0))
                \<and> heap (snd s1) ! r = heap (snd s0) ! r"
    using acquire_all_object_kept [OF GetTreeTypes_ok [OF p] run] by simp
  moreover have "fmdom (treeTypes (fst s0)) |\<subseteq>| fmdom (treeTypes (fst s1))"
    using acquire_all_dom [OF run] by auto
  moreover have "fcard (fmdom (treeTypes (fst s1)) |-| fmdom (treeTypes (fst s0))) \<le> length calls"
    using acquire_all_new_keys [OF run] by simp
  moreover have "take (length (heap (snd s0))) (heap (snd s1)) = heap (snd s0)"
    using acquire_all_heap_prefix [OF run] by simp
  ultimately show "let (rs0, s0) = GetTreeTypes before (NewTreeTypeFactory, tw);
        (rs1, s1) = GetTreeTypes calls s0
    in (\<forall>k r. fmlookup (treeTypes (fst s0)) k = Some r \<longrightarrow>
                fmlookup (treeTypes (fst s1)) k = Some r \<and> r < length (heap (snd s0))
                \<and> heap (snd s1) ! r = heap (snd s0) ! r)
       \<and> fmdom (treeTypes (fst s0)) |\<subseteq>| fmdom (treeTypes (fst s1))
       \<and> fcard (fmdom (treeTypes (fst s1)) |-| fmdom (treeTypes (fst s0))) \<le> length calls
       \<and> take (length (heap (snd s0))) (heap (snd s1)) = heap (snd s0)"
    using p c by simp
next
  obtain rs0 s0 where p: "GetStyles sbefore (NewStyleFactory, sw) = (rs0, s0)"
    by (cases "GetStyles sbefore (NewStyleFactory, sw)")
  obtain rs1 s1 where c: "GetStyles scalls s0 = (rs1, s1)"
    by (cases "GetStyles scalls s0")
  note run = GetStyles_acquire_allD [OF c]
  have "\<forall>k r. fmlookup (styles (fst s0)) k = Some r \<longrightarrow>
                fmlookup (styles (fst s1)) k = Some r \<and> r < length (heap (snd s0))
                \<and> heap (snd s1) ! r = heap (snd s0) ! r"
    using acquire_all_object_kept [OF GetStyles_ok [OF p] run] by simp
  moreover have "fmdom (styles (fst s0)) |\<subseteq>| fmdom (styles (fst s1))"
    using acquire_all_dom [OF run] by auto
  moreover have "fcard (fmdom (styles (fst s1)) |-| fmdom (styles (fst s0))) \<le> length scalls"
    using acquire_all_new_keys [OF run] by simp
  moreover have "take (length (heap (snd s0))) (heap (snd s1)) = heap (snd s0)"
    using acquire_all_heap_prefix [OF run] by simp
  ultimately show "let (rs0, s0) = GetStyles sbefore (NewStyleFactory, sw);
           (rs1, s1) = GetStyles scalls s0
       in (\<forall>k r. fmlookup (styles (fst s0)) k = Some r \<longrightarrow>
                   fmlookup (styles (fst s1)) k = Some r \<and> r < length (heap (snd s0))
                   \<and> heap (snd s1) ! r = heap (snd s0) ! r)
          \<and> fmdom (styles (fst s0)) |\<subseteq>| fmdom (styles (fst s1))
          \<and> fcard (fmdom (styles (fst s1)) |-| fmdom (styles (fst s0))) \<le> length scalls
          \<and> take (length (heap (snd s0))) (heap (snd s1)) = heap (snd s0)"
    using p c by simp
next
  obtain rs0 s0 where p: "GetSprites pbefore (NewSpriteFactory, pw) = (rs0, s0)"
    by (cases "GetSprites pbefore (NewSpriteFactory, pw)")
  obtain rs1 s1 where c: "GetSprites pcalls s0 = (rs1, s1)"
    by (cases "GetSprites pcalls s0")
  note run = GetSprites_acquire_allD [OF c]
  have "\<forall>k r. fmlookup (sprites (fst s0)) k = Some r \<longrightarrow>
                fmlookup (sprites (fst s1)) k = Some r \<and> r < length (heap (snd s0))
                \<and> heap (snd s1) ! r = heap (snd s0) ! r"
    using acquire_all_object_kept [OF GetSprites_ok [OF p] run] by simp
  moreover have "fmdom (sprites (fst s0)) |\<subseteq>| fmdom (sprites (fst s1))"
    using acquire_all_dom [OF run] by auto
  moreover have "fcard (fmdom (sprites (fst s1)) |-| fmdom (sprites (fst s0))) \<le> length pcalls"
    using acquire_all_new_keys [OF run] by simp
  moreover have "take (length (heap (snd s0))) (heap (snd s1)) = heap (snd s0)"
    using acquire_all_heap_prefix [OF run] by simp
  ultimately show "let (rs0, s0) = GetSprites pbefore (NewSpriteFactory, pw);
           (rs1, s1) = GetSprites pcalls s0
       in (\<forall>k r. fmlookup (sprites (fst s0)) k = Some r \<longrightarrow>
                   fmlookup (sprites (fst s1)) k = Some r \<and> r < length (heap (snd s0))
                   \<and> heap (snd s1) ! r = heap (snd s0) ! r)
          \<and> fmdom (sprites (fst s0)) |\<subseteq>| fmdom (sprites (fst s1))
          \<and> fcard (fmdom (sprites (fst s1)) |-| fmdom (sprites (fst s0))) \<le> length pcalls
          \<and> take (length (heap (snd s0))) (heap (snd s1)) = heap (snd s0)"
    using p c by simp
qed

theorem cache_only_grows_witness:
  "(let (rs0, s0) = GetTreeTypes [(''Oak'', ''Green'', ''Rough'')]
                      (NewTreeTypeFactory, \<lparr>heap = [], stdout = []\<rparr>);
        (rs1, s1) = GetTreeTypes [(''Pine'', ''Dark Green'', ''Smooth''),
                                  (''Oak'', ''Green'', ''Rough'')] s0
    in fmlookup (treeTypes (fst s0)) ''Oak-Green-Rough'' = Some 0
       \<and> fmlookup (treeTypes (fst s1)) ''Oak-Green-Rough'' = Some 0
       \<and> heap (snd s1) ! 0 = heap (snd s0) ! 0)
   \<and> (let (rs0, s0) = GetStyles [(''Arial'', 12, ''Black'', False, False)]
                         (NewStyleFactory, \<lparr>heap = [], stdout = []\<rparr>);
           (rs1, s1) = GetStyles [(''Arial'', 12, ''Black'', True, False)] s0
       in fmlookup (styles (fst s0)) ''Arial-12-Black-false-false'' = Some 0
          \<and> fmlookup (styles (fst s1)) ''Arial-12-Black-false-false'' = Some 0
          \<and> heap (snd s1) ! 0 = heap (snd s0) ! 0)
   \<and> (let (rs0, s0) = GetSprites [(''spark'', ''orange'', 16, 16)]
                         (NewSpriteFactory, \<lparr>heap = [], stdout = []\<rparr>);
           (rs1, s1) = GetSprites [(''smoke'', ''gray'', 16, 16)] s0
       in fmlookup (sprites (fst s0)) ''spark-orange-16-16'' = Some 0
          \<and> fmlookup (sprites (fst s1)) ''spark-orange-16-16'' = Some 0
          \<and> heap (snd s1) ! 0 = heap (snd s0) ! 0)"
proof -
  note inst = cache_only_grows [of "[(''Oak'', ''Green'', ''Rough'')]" "\<lparr>heap = [], stdout = []\<rparr>"
      "[(''Pine'', ''Dark Green'', ''Smooth''), (''Oak'', ''Green'', ''Rough'')]"
      "[(''Arial'', 12, ''Black'', False, False)]" "\<lparr>heap = [], stdout = []\<rparr>"
      "[(''Arial'', 12, ''Black'', True, False)]"
      "[(''spark'', ''orange'', 16, 16)]" "\<lparr>heap = [], stdout = []\<rparr>"
      "[(''smoke'', ''gray'', 16, 16)]"]
  obtain t0 ts0 where t0: "GetTreeTypes [(''Oak'', ''Green'', ''Rough'')]
                      (NewTreeTypeFactory, \<lparr>heap = [], stdout = []\<rparr>) = (t0, ts0)"
    by (cases "GetTreeTypes [(''Oak'', ''Green'', ''Rough'')]
                      (NewTreeTypeFactory, \<lparr>heap = [], stdout = []\<rparr>)")
  obtain t1 ts1 where t1: "GetTreeTypes [(''Pine'', ''Dark Green'', ''Smooth''),
                                  (''Oak'', ''Green'', ''Rough'')] ts0 = (t1, ts1)"
    by (cases "GetTreeTypes [(''Pine'', ''Dark Green'', ''Smooth''),
                                  (''Oak'', ''Green'', ''Rough'')] ts0")
  obtain c0 cs0 where c0: "GetStyles [(''Arial'', 12, ''Black'', False, False)]
                         (NewStyleFactory, \<lparr>heap = [], stdout = []\<rparr>) = (c0, cs0)"
    by (cases "GetStyles [(''Arial'', 12, ''Black'', False, False)]
                         (NewStyleFactory, \<lparr>heap = [], stdout = []\<rparr>)")
  obtain c1 cs1 where c1: "GetStyles [(''Arial'', 12, ''Black'', True, False)] cs0 = (c1, cs1)"
    by (cases "GetStyles [(''Arial'', 12, ''Black'', True, False)] cs0")
  obtain p0 ps0 where p0: "GetSprites [(''spark'', ''orange'', 16, 16)]
                         (NewSpriteFactory, \<lparr>heap = [], stdout = []\<rparr>) = (p0, ps0)"
    by (cases "GetSprites [(''spark'', ''orange'', 16, 16)]
                         (NewSpriteFactory, \<lparr>heap = [], stdout = []\<rparr>)")
  obtain p1 ps1 where p1: "GetSprites [(''smoke'', ''gray'', 16, 16)] ps0 = (p1, ps1)"
    by (cases "GetSprites [(''smoke'', ''gray'', 16, 16)] ps0")
  have a: "fmlookup (treeTypes (fst ts0)) ''Oak-Green-Rough'' = Some 0"
    using t0 by (auto simp: tree_eval)
  have b: "fmlookup (styles (fst cs0)) ''Arial-12-Black-false-false'' = Some 0"
    using c0 by (auto simp: style_eval fmt_d_def dec_nat.simps)
  have c: "fmlookup (sprites (fst ps0)) ''spark-orange-16-16'' = Some 0"
    using p0 by (auto simp: sprite_eval fmt_d_def dec_nat.simps)
  from inst have
    "\<forall>k r. fmlookup (treeTypes (fst ts0)) k = Some r \<longrightarrow>
                fmlookup (treeTypes (fst ts1)) k = Some r \<and> r < length (heap (snd ts0))
                \<and> heap (snd ts1) ! r = heap (snd ts0) ! r"
    "\<forall>k r. fmlookup (styles (fst cs0)) k = Some r \<longrightarrow>
                fmlookup (styles (fst cs1)) k = Some r \<and> r < length (heap (snd cs0))
                \<and> heap (snd cs1) ! r = heap (snd cs0) ! r"
    "\<forall>k r. fmlookup (sprites (fst ps0)) k = Some r \<longrightarrow>
                fmlookup (sprites (fst ps1)) k = Some r \<and> r < length (heap (snd ps0))
                \<and> heap (snd ps1) ! r = heap (snd ps0) ! r"
    unfolding t0 t1 c0 c1 p0 p1 Let_def prod.case by blast+
  from this(1) [rule_format, OF a] this(2) [rule_format, OF b] this(3) [rule_format, OF c]
  show ?thesis
    unfolding t0 t1 c0 c1 p0 p1 Let_def prod.case using a b c by blast
qed

text \<open>
  Claim C5. Planting \<open>N\<close> trees in a new forest, with \<open>K\<close> distinct keys among their
  attribute tuples, leaves exactly \<open>K\<close> entries in the cache of the factory
  (\<open>GetTotalTypes\<close> returns \<open>K\<close>) and allocates exactly \<open>K\<close> descriptors, whatever
  \<open>N\<close> is; \<open>K\<close> is at most \<open>N\<close>, the forest has \<open>N\<close> trees, and each tree points to
  the descriptor the cache stores under the key of its attributes.
\<close>

theorem descriptors_as_many_as_distinct_keys:
  assumes "length plants = N"
    and "card ((\<lambda>(x, y, name, color, texture). tree_key name color texture) ` set plants) = K"
  shows "K \<le> N \<and>
     (let (f, w') = PlantTrees plants (NewForest, w)
      in GetTotalTypes (factory f) = int K
         \<and> length (heap w') = length (heap w) + K
         \<and> length (trees f) = N
         \<and> (\<forall>i<N. case plants ! i of (x, y, name, color, texture) \<Rightarrow>
               fmlookup (treeTypes (factory f)) (tree_key name color texture)
                 = Some (treeType (trees f ! i))))"
proof -
  let ?key = "\<lambda>(x, y, name, color, texture). tree_key name color texture"
  let ?as = "map (\<lambda>(x, y, a). a) plants"
  have keys: "map fst (map tree_request ?as) = map ?key plants"
    by (simp add: tree_request_def split_def)
  have kn: "K \<le> N"
    using assms card_length [of "map ?key plants"] by simp
  obtain f w' where pl: "PlantTrees plants (NewForest, w) = (f, w')"
    by (cases "PlantTrees plants (NewForest, w)")
  from PlantTrees_GetTreeTypes [OF pl] obtain rs where
    g: "GetTreeTypes ?as (NewTreeTypeFactory, w) = (rs, factory f, w')"
    and t: "trees f = map (\<lambda>((x, y, a), r). NewTree x y r) (zip plants rs)"
    by (auto simp: NewForest_def)
  note run = GetTreeTypes_acquire_allD [OF g]
  have len: "length rs = length plants"
    using acquire_all_length [OF run] by simp
  have e: "fst (tree_st (NewTreeTypeFactory, w)) = fmempty"
    by (simp add: NewTreeTypeFactory_def)
  have "fcard (fmdom (treeTypes (factory f))) = K"
    using acquire_all_from_empty(1) [OF run e] keys assms(2) by simp
  then have c1: "GetTotalTypes (factory f) = int K"
    by (simp add: GetTotalTypes_def)
  have c2: "length (heap w') = length (heap w) + K"
    using acquire_all_from_empty(2) [OF run e] keys assms(2) by simp
  have c3: "length (trees f) = N"
    using t len assms(1) by simp
  have c4: "\<forall>i<N. case plants ! i of (x, y, name, color, texture) \<Rightarrow>
               fmlookup (treeTypes (factory f)) (tree_key name color texture)
                 = Some (treeType (trees f ! i))"
  proof (intro allI impI)
    fix i assume i: "i < N"
    then have i': "i < length (map tree_request ?as)" using assms(1) by simp
    obtain x y name color texture where p: "plants ! i = (x, y, name, color, texture)"
      by (cases "plants ! i")
    have "treeType (trees f ! i) = rs ! i"
      using t len i assms(1) p by (simp add: NewTree_def)
    moreover have "fmlookup (treeTypes (factory f)) (tree_key name color texture) = Some (rs ! i)"
      using acquire_all_lookup [OF run i'] i assms(1) p by simp
    ultimately show "case plants ! i of (x, y, name, color, texture) \<Rightarrow>
               fmlookup (treeTypes (factory f)) (tree_key name color texture)
                 = Some (treeType (trees f ! i))"
      using p by simp
  qed
  show ?thesis using kn pl c1 c2 c3 c4 by simp
qed

theorem descriptors_as_many_as_distinct_keys_witness:
  "length [(10, 20, ''Oak'', ''Green'', ''Rough''), (30, 40, ''Pine'', ''Dark Green'', ''Smooth''),
           (50, 60, ''Oak'', ''Green'', ''Rough''), (70, 80, ''Birch'', ''White'', ''Smooth'')]
     = (4::nat)
   \<and> card ((\<lambda>(x, y, name, color, texture). tree_key name color texture) `
        set [(10::int, 20::int, ''Oak'', ''Green'', ''Rough''),
             (30, 40, ''Pine'', ''Dark Green'', ''Smooth''),
             (50, 60, ''Oak'', ''Green'', ''Rough''), (70, 80, ''Birch'', ''White'', ''Smooth'')])
       = 3
   \<and> GetTotalTypes (factory (fst (PlantTrees
        [(10, 20, ''Oak'', ''Green'', ''Rough''), (30, 40, ''Pine'', ''Dark Green'', ''Smooth''),
         (50, 60, ''Oak'', ''Green'', ''Rough''), (70, 80, ''Birch'', ''White'', ''Smooth'')]
        (NewForest, \<lparr>heap = [], stdout = []\<rparr>)))) = 3
   \<and> map treeType (trees (fst (PlantTrees
        [(10, 20, ''Oak'', ''Green'', ''Rough''), (30, 40, ''Pine'', ''Dark Green'', ''Smooth''),
         (50, 60, ''Oak'', ''Green'', ''Rough''), (70, 80, ''Birch'', ''White'', ''Smooth'')]
        (NewForest, \<lparr>heap = [], stdout = []\<rparr>)))) = [0, 1, 0, 2]"
proof -
  let ?plants = "[(10::int, 20::int, ''Oak'', ''Green'', ''Rough''),
         (30, 40, ''Pine'', ''Dark Green'', ''Smooth''),
         (50, 60, ''Oak'', ''Green'', ''Rough''), (70, 80, ''Birch'', ''White'', ''Smooth'')]"
  have n: "length ?plants = 4" by simp
  have k: "card ((\<lambda>(x, y, name, color, texture). tree_key name color texture) ` set ?plants) = 3"
    by (simp add: tree_key_def card_insert_if)
  obtain f w' where g: "PlantTrees ?plants (NewForest, \<lparr>heap = [], stdout = []\<rparr>) = (f, w')"
    by (cases "PlantTrees ?plants (NewForest, \<lparr>heap = [], stdout = []\<rparr>)")
  have "GetTotalTypes (factory f) = 3"
    using descriptors_as_many_as_distinct_keys [OF n k, of "\<lparr>heap = [], stdout = []\<rparr>"]
    unfolding g Let_def prod.case by simp
  moreover have "map treeType (trees f) = [0, 1, 0, 2]"
    using g by (auto simp: PlantTree_def NewForest_def NewTree_def tree_eval)
  ultimately show ?thesis unfolding g using n k by simp
qed

text \<open>
  Claim C6. On a new \<open>TreeTypeFactory\<close>, three requests for
  \<open>("Oak", "Green", "Rough")\<close> and two for \<open>("Pine", "Dark Green", "Smooth")\<close>, in any
  order, leave a cache of exactly two entries and two descriptors allocated, and all the
  requests for the oak return the same pointer.
\<close>

theorem oak_three_times_pine_twice:
  assumes "mset calls = {#(''Oak'', ''Green'', ''Rough''), (''Oak'', ''Green'', ''Rough''),
                          (''Oak'', ''Green'', ''Rough''), (''Pine'', ''Dark Green'', ''Smooth''),
                          (''Pine'', ''Dark Green'', ''Smooth'')#}"
  shows "let (rs, s) = GetTreeTypes calls (NewTreeTypeFactory, w)
         in GetTotalTypes (fst s) = 2
            \<and> length (heap (snd s)) = length (heap w) + 2
            \<and> (\<forall>i<length calls. \<forall>j<length calls.
                  calls ! i = (''Oak'', ''Green'', ''Rough'')
                  \<and> calls ! j = (''Oak'', ''Green'', ''Rough'') \<longrightarrow> rs ! i = rs ! j)"
proof -
  obtain rs s where g: "GetTreeTypes calls (NewTreeTypeFactory, w) = (rs, s)"
    by (cases "GetTreeTypes calls (NewTreeTypeFactory, w)")
  note run = GetTreeTypes_acquire_allD [OF g]
  have "set calls = set_mset (mset calls)" by simp
  also have "\<dots> = {(''Oak'', ''Green'', ''Rough''), (''Pine'', ''Dark Green'', ''Smooth'')}"
    unfolding assms by simp
  finally have sc: "set calls = {(''Oak'', ''Green'', ''Rough''), (''Pine'', ''Dark Green'', ''Smooth'')}" .
  have "set (map fst (map tree_request calls))
     = (\<lambda>(name, color, texture). tree_key name color texture) ` set calls"
    unfolding tree_request_keys by simp
  then have "set (map fst (map tree_request calls))
      = {tree_key ''Oak'' ''Green'' ''Rough'', tree_key ''Pine'' ''Dark Green'' ''Smooth''}"
    unfolding sc by simp
  moreover have "card {tree_key ''Oak'' ''Green'' ''Rough'', tree_key ''Pine'' ''Dark Green'' ''Smooth''} = 2"
    by (simp add: tree_key_def)
  ultimately have k: "card (set (map fst (map tree_request calls))) = 2"
    by simp
  have e: "fst (tree_st (NewTreeTypeFactory, w)) = fmempty"
    by (simp add: NewTreeTypeFactory_def)
  have c1: "GetTotalTypes (fst s) = 2"
    using acquire_all_from_empty(1) [OF run e] k by (simp add: GetTotalTypes_def)
  have c2: "length (heap (snd s)) = length (heap w) + 2"
    using acquire_all_from_empty(2) [OF run e] k by simp
  have c3: "\<forall>i<length calls. \<forall>j<length calls.
                  calls ! i = (''Oak'', ''Green'', ''Rough'')
                  \<and> calls ! j = (''Oak'', ''Green'', ''Rough'') \<longrightarrow> rs ! i = rs ! j"
  proof (intro allI impI)
    fix i j
    assume i: "i < length calls" and j: "j < length calls"
      and o: "calls ! i = (''Oak'', ''Green'', ''Rough'') \<and> calls ! j = (''Oak'', ''Green'', ''Rough'')"
    have "fmlookup (fst (tree_st s)) (fst (map tree_request calls ! i)) = Some (rs ! i)"
      by (rule acquire_all_lookup [OF run]) (simp add: i)
    moreover have "fmlookup (fst (tree_st s)) (fst (map tree_request calls ! j)) = Some (rs ! j)"
      by (rule acquire_all_lookup [OF run]) (simp add: j)
    moreover have "map tree_request calls ! i = map tree_request calls ! j"
      using i j o by (simp only: nth_map)
    ultimately show "rs ! i = rs ! j" by simp
  qed
  show ?thesis unfolding g Let_def prod.case using c1 c2 c3 by (intro conjI)
qed

theorem oak_three_times_pine_twice_witness:
  "mset [(''Oak'', ''Green'', ''Rough''), (''Pine'', ''Dark Green'', ''Smooth''),
         (''Oak'', ''Green'', ''Rough''), (''Pine'', ''Dark Green'', ''Smooth''),
         (''Oak'', ''Green'', ''Rough'')]
     = {#(''Oak'', ''Green'', ''Rough''), (''Oak'', ''Green'', ''Rough''),
         (''Oak'', ''Green'', ''Rough''), (''Pine'', ''Dark Green'', ''Smooth''),
         (''Pine'', ''Dark Green'', ''Smooth'')#}
   \<and> fst (GetTreeTypes
      [(''Oak'', ''Green'', ''Rough''), (''Pine'', ''Dark Green'', ''Smooth''),
       (''Oak'', ''Green'', ''Rough''), (''Pine'', ''Dark Green'', ''Smooth''),
       (''Oak'', ''Green'', ''Rough'')]
      (NewTreeTypeFactory, \<lparr>heap = [], stdout = []\<rparr>)) = [0, 1, 0, 1, 0]
   \<and> GetTotalTypes (fst (snd (GetTreeTypes
      [(''Oak'', ''Green'', ''Rough''), (''Pine'', ''Dark Green'', ''Smooth''),
       (''Oak'', ''Green'', ''Rough''), (''Pine'', ''Dark Green'', ''Smooth''),
       (''Oak'', ''Green'', ''Rough'')]
      (NewTreeTypeFactory, \<lparr>heap = [], stdout = []\<rparr>)))) = 2"
proof -
  let ?calls = "[(''Oak'', ''Green'', ''Rough''), (''Pine'', ''Dark Green'', ''Smooth''),
       (''Oak'', ''Green'', ''Rough''), (''Pine'', ''Dark Green'', ''Smooth''),
       (''Oak'', ''Green'', ''Rough'')]"
  have h: "mset ?calls = {#(''Oak'', ''Green'', ''Rough''), (''Oak'', ''Green'', ''Rough''),
                          (''Oak'', ''Green'', ''Rough''), (''Pine'', ''Dark Green'', ''Smooth''),
                          (''Pine'', ''Dark Green'', ''Smooth'')#}"
    by simp
  obtain rs s where g: "GetTreeTypes ?calls (NewTreeTypeFactory, \<lparr>heap = [], stdout = []\<rparr>) = (rs, s)"
    by (cases "GetTreeTypes ?calls (NewTreeTypeFactory, \<lparr>heap = [], stdout = []\<rparr>)")
  have "GetTotalTypes (fst s) = 2"
    using oak_three_times_pine_twice [OF h, of "\<lparr>heap = [], stdout = []\<rparr>"]
    unfolding g Let_def prod.case by (elim conjE)
  moreover have "rs = [0, 1, 0, 1, 0]"
    using g by (simp add: tree_eval)
  ultimately show ?thesis unfolding g using h by simp
qed

section \<open>Properties of the adapter and of the proxies\<close>

lemma ToLower_unknown: "ToLower unicode_lower ''unknown'' = ''unknown''"
  by (simp add: ToLower_def ascii_lower_def)

lemma ToLower_MP3: "ToLower unicode_lower ''MP3'' = ''mp3''"
  by (simp add: ToLower_def ascii_lower_def char_of_def bit_Suc_0_iff)

lemma prefix_take6:
  "6 \<le> length sql \<Longrightarrow> length k = 6 \<Longrightarrow> prefix k sql \<longleftrightarrow> take 6 sql = k"
  by (metis append_eq_conv_conj prefix_def take_is_prefix)

lemma checkAccess_user:
  assumes "userRole p = ''user''" and "6 \<le> length sql"
  shows "checkAccess p sql = Inr (prefix ''SELECT'' sql \<or> prefix ''select'' sql)"
  using assms prefix_take6 [of sql "''SELECT''"] prefix_take6 [of sql "''select''"]
  by (simp add: checkAccess_def slice_to_def)

lemma checkAccess_user_short:
  assumes "userRole p = ''user''" and "length sql < 6"
  shows "checkAccess p sql = Inl (SliceBoundsOutOfRange 6 (length sql))"
  using assms by (simp add: checkAccess_def slice_to_def)

lemma checkAccess_admin: "userRole p = ''admin'' \<Longrightarrow> checkAccess p sql = Inr True"
  by (simp add: checkAccess_def)

lemma AuthenticateAndWithdraw_locked:
  "locked p \<Longrightarrow>
     AuthenticateAndWithdraw fl enteredPin amount p
       = ([nl @ ''[BankAccountProxy] Authentication attempt...'' @ nl,
           ''[BankAccountProxy] Account is LOCKED due to multiple failed attempts'' @ nl],
          False, p)"
  by (simp add: AuthenticateAndWithdraw_def)

lemma BankAccountProxy_Withdraw_locked:
  "locked (snd (snd (BankAccountProxy_Withdraw fl amount p))) = locked p"
  by (simp add: BankAccountProxy_Withdraw_def RealBankAccount_Withdraw_def Let_def split_def)

lemma account_step_locked: "locked p \<Longrightarrow> locked (account_step fl c p)"
  by (cases c) (simp_all add: BankAccountProxy_Withdraw_locked AuthenticateAndWithdraw_locked)

lemma account_calls_locked: "locked p \<Longrightarrow> locked (account_calls fl cs p)"
  by (induction cs arbitrary: p) (simp_all add: account_step_locked)

lemma authenticate_calls_locked:
  "locked p \<Longrightarrow>
     account_calls fl (map (\<lambda>(e, a). CallAuthenticateAndWithdraw e a) attempts) p = p"
  by (induction attempts) (simp_all add: AuthenticateAndWithdraw_locked split_def)

lemma AuthenticateAndWithdraw_wrong_pin:
  assumes "\<not> locked p" and "enteredPin \<noteq> pin p"
  shows "snd (snd (AuthenticateAndWithdraw fl enteredPin amount p))
           = p\<lparr>attemptCount := attemptCount p + 1, locked := 3 \<le>s attemptCount p + 1\<rparr>"
  using assms by (simp add: AuthenticateAndWithdraw_def Let_def)

lemma three_failures_lock:
  assumes "e1 \<noteq> pn" "e2 \<noteq> pn" "e3 \<noteq> pn"
  shows "account_calls fl [CallAuthenticateAndWithdraw e1 a1, CallAuthenticateAndWithdraw e2 a2,
            CallAuthenticateAndWithdraw e3 a3] (NewBankAccountProxy acc bal pn)
         = \<lparr>pin = pn, realAccount = NewRealBankAccount acc bal, attemptCount = 3, locked = True\<rparr>"
proof -
  let ?p0 = "NewBankAccountProxy acc bal pn"
  let ?p1 = "\<lparr>pin = pn, realAccount = NewRealBankAccount acc bal, attemptCount = 1::64 word,
              locked = False\<rparr>"
  let ?p2 = "\<lparr>pin = pn, realAccount = NewRealBankAccount acc bal, attemptCount = 2::64 word,
              locked = False\<rparr>"
  let ?p3 = "\<lparr>pin = pn, realAccount = NewRealBankAccount acc bal, attemptCount = 3::64 word,
              locked = True\<rparr>"
  have s1: "account_step fl (CallAuthenticateAndWithdraw e1 a1) ?p0 = ?p1"
    using AuthenticateAndWithdraw_wrong_pin [of ?p0 e1 fl a1] assms(1)
    by (simp add: NewBankAccountProxy_def word_sle_eq)
  have s2: "account_step fl (CallAuthenticateAndWithdraw e2 a2) ?p1 = ?p2"
    using AuthenticateAndWithdraw_wrong_pin [of ?p1 e2 fl a2] assms(2)
    by (simp add: word_sle_eq)
  have s3: "account_step fl (CallAuthenticateAndWithdraw e3 a3) ?p2 = ?p3"
    using AuthenticateAndWithdraw_wrong_pin [of ?p2 e3 fl a3] assms(3)
    by (simp add: word_sle_eq)
  show ?thesis
    by (simp only: account_calls.simps s1 s2 s3)
qed

section \<open>The claims about the adapter and the proxies\<close>

text \<open>
  Claim C7. \<open>MediaAdapter.Play\<close> returns an error exactly when the media type in lower
  case is none of \<open>mp3\<close>, \<open>wav\<close>, \<open>audio\<close>, \<open>mp4\<close>, \<open>avi\<close>, \<open>video\<close>,
  \<open>vlc\<close>, \<open>mkv\<close>. When it returns an error no player has written anything and the
  error names the media type as given; when it returns none, one of the three players has
  played the file. For the media type \<open>unknown\<close> it returns the error and plays
  nothing. This holds whatever the Unicode tables do with a string that is not ASCII.
\<close>

theorem unsupported_media_type_is_an_error:
  "(snd (MediaAdapter_Play unicode_lower m mediaType fileName) \<noteq> None)
     = (ToLower unicode_lower mediaType
          \<notin> set [''mp3'', ''wav'', ''audio'', ''mp4'', ''avi'', ''video'', ''vlc'', ''mkv''])
   \<and> (snd (MediaAdapter_Play unicode_lower m mediaType fileName) \<noteq> None \<longrightarrow>
        MediaAdapter_Play unicode_lower m mediaType fileName
          = ([], Some (''unsupported media type: '' @ mediaType)))
   \<and> (snd (MediaAdapter_Play unicode_lower m mediaType fileName) = None \<longrightarrow>
        fst (MediaAdapter_Play unicode_lower m mediaType fileName)
          \<in> {PlayAudio (audioPlayer m) fileName, PlayVideo (videoPlayer m) fileName,
              PlayVLC (vlcPlayer m) fileName})
   \<and> MediaAdapter_Play unicode_lower m ''unknown'' fileName
        = ([], Some ''unsupported media type: unknown'')"
proof (intro conjI)
  show "MediaAdapter_Play unicode_lower m ''unknown'' fileName
        = ([], Some ''unsupported media type: unknown'')"
    by (simp add: MediaAdapter_Play_def ToLower_unknown)
qed (simp_all add: MediaAdapter_Play_def Let_def)

theorem unsupported_media_type_is_an_error_witness:
  "snd (MediaAdapter_Play (\<lambda>s. s) NewMediaAdapter ''unknown'' ''file.xyz'') \<noteq> None
   \<and> MediaAdapter_Play (\<lambda>s. s) NewMediaAdapter ''unknown'' ''file.xyz''
        = ([], Some ''unsupported media type: unknown'')
   \<and> snd (MediaAdapter_Play (\<lambda>s. s) NewMediaAdapter ''MP3'' ''song.mp3'') = None
   \<and> fst (MediaAdapter_Play (\<lambda>s. s) NewMediaAdapter ''MP3'' ''song.mp3'')
        = [''[AudioPlayer] Playing audio file: song.mp3'' @ nl]"
  using unsupported_media_type_is_an_error [of "\<lambda>s. s" NewMediaAdapter "''unknown''" "''file.xyz''"]
    unsupported_media_type_is_an_error [of "\<lambda>s. s" NewMediaAdapter "''MP3''" "''song.mp3''"]
  by (simp add: MediaAdapter_Play_def ToLower_unknown ToLower_MP3 PlayAudio_def)

text \<open>
  Claim C8. For a proxy of role \<open>user\<close> and a query of six bytes or more that begins
  neither with \<open>SELECT\<close> nor with \<open>select\<close>, \<open>Query\<close> returns
  \<open>ACCESS_DENIED\<close>, and what it has written are its own two lines: the line the real
  database writes when it runs a query is not among them. For a proxy of role \<open>admin\<close>,
  for every query, \<open>Query\<close> grants the access, has the real database run the query,
  logs it and returns the result of the real database, \<open>QUERY_RESULT\<close>.
\<close>

theorem user_may_only_select_admin_may_all:
  "(userRole p = ''user'' \<and> 6 \<le> length sql \<and> \<not> prefix ''SELECT'' sql \<and> \<not> prefix ''select'' sql \<longrightarrow>
      DatabaseProxy_Query p sql
        = ([nl @ ''[DatabaseProxy] User role: user attempting query'' @ nl,
            ''[DatabaseProxy] ACCESS DENIED - Insufficient permissions'' @ nl],
           Inr ''ACCESS_DENIED'')
      \<and> set (fst (RealDatabase_Query (realDatabase p) sql))
           \<inter> set (fst (DatabaseProxy_Query p sql)) = {})
   \<and> (userRole p = ''admin'' \<longrightarrow>
      DatabaseProxy_Query p sql
        = ([nl @ ''[DatabaseProxy] User role: admin attempting query'' @ nl,
            ''[DatabaseProxy] Access granted - forwarding to real database'' @ nl]
             @ fst (RealDatabase_Query (realDatabase p) sql)
             @ [''[DatabaseProxy] Logging query: '' @ sql @ '' by user role: admin'' @ nl],
           Inr (snd (RealDatabase_Query (realDatabase p) sql)))
      \<and> snd (RealDatabase_Query (realDatabase p) sql) = ''QUERY_RESULT'')"
proof (intro conjI impI)
  assume a: "userRole p = ''user'' \<and> 6 \<le> length sql \<and> \<not> prefix ''SELECT'' sql \<and> \<not> prefix ''select'' sql"
  then have c: "checkAccess p sql = Inr False"
    using checkAccess_user [of p sql] by simp
  show q: "DatabaseProxy_Query p sql
        = ([nl @ ''[DatabaseProxy] User role: user attempting query'' @ nl,
            ''[DatabaseProxy] ACCESS DENIED - Insufficient permissions'' @ nl],
           Inr ''ACCESS_DENIED'')"
    using a c by (simp add: DatabaseProxy_Query_def)
  show "set (fst (RealDatabase_Query (realDatabase p) sql))
           \<inter> set (fst (DatabaseProxy_Query p sql)) = {}"
    unfolding q by (simp add: RealDatabase_Query_def nl_def)
next
  assume a: "userRole p = ''admin''"
  show "DatabaseProxy_Query p sql
        = ([nl @ ''[DatabaseProxy] User role: admin attempting query'' @ nl,
            ''[DatabaseProxy] Access granted - forwarding to real database'' @ nl]
             @ fst (RealDatabase_Query (realDatabase p) sql)
             @ [''[DatabaseProxy] Logging query: '' @ sql @ '' by user role: admin'' @ nl],
           Inr (snd (RealDatabase_Query (realDatabase p) sql)))"
    using a checkAccess_admin [OF a, of sql]
    by (simp add: DatabaseProxy_Query_def logQuery_def split_def Let_def)
  show "snd (RealDatabase_Query (realDatabase p) sql) = ''QUERY_RESULT''"
    by (simp add: RealDatabase_Query_def)
qed

theorem user_may_only_select_admin_may_all_witness:
  "userRole (snd (NewDatabaseProxy ''user'')) = ''user''
   \<and> 6 \<le> length ''DELETE FROM products WHERE id = 1''
   \<and> \<not> prefix ''SELECT'' ''DELETE FROM products WHERE id = 1''
   \<and> \<not> prefix ''select'' ''DELETE FROM products WHERE id = 1''
   \<and> snd (DatabaseProxy_Query (snd (NewDatabaseProxy ''user'')) ''DELETE FROM products WHERE id = 1'')
       = Inr ''ACCESS_DENIED''
   \<and> userRole (snd (NewDatabaseProxy ''admin'')) = ''admin''
   \<and> snd (DatabaseProxy_Query (snd (NewDatabaseProxy ''admin'')) ''DELETE FROM products WHERE id = 1'')
       = Inr ''QUERY_RESULT''"
proof -
  have u: "userRole (snd (NewDatabaseProxy ''user'')) = ''user''"
    and a: "userRole (snd (NewDatabaseProxy ''admin'')) = ''admin''"
    by (simp_all add: NewDatabaseProxy_def NewRealDatabase_def)
  have h: "6 \<le> length ''DELETE FROM products WHERE id = 1''"
    "\<not> prefix ''SELECT'' ''DELETE FROM products WHERE id = 1''"
    "\<not> prefix ''select'' ''DELETE FROM products WHERE id = 1''"
    by simp_all
  show ?thesis
    using u a h
      user_may_only_select_admin_may_all [of "snd (NewDatabaseProxy ''user'')"
        "''DELETE FROM products WHERE id = 1''"]
      user_may_only_select_admin_may_all [of "snd (NewDatabaseProxy ''admin'')"
        "''DELETE FROM products WHERE id = 1''"]
    by simp
qed

text \<open>
  Claim C9. For a proxy of role \<open>user\<close> and a query shorter than six bytes,
  \<open>Query\<close> panics: the slice \<open>sql[:6]\<close> of \<open>checkAccess\<close> is out of range, after
  the first line has been written and before any result. The query \<open>use\<close> on the proxy
  that \<open>NewDatabaseProxy("user")\<close> builds is such an input.
\<close>

theorem short_query_of_user_panics:
  "(userRole p = ''user'' \<and> length sql < 6 \<longrightarrow>
      DatabaseProxy_Query p sql
        = ([nl @ ''[DatabaseProxy] User role: user attempting query'' @ nl],
           Inl (SliceBoundsOutOfRange 6 (length sql))))
   \<and> DatabaseProxy_Query (snd (NewDatabaseProxy ''user'')) ''use''
        = ([nl @ ''[DatabaseProxy] User role: user attempting query'' @ nl],
           Inl (SliceBoundsOutOfRange 6 3))"
proof (intro conjI impI)
  assume a: "userRole p = ''user'' \<and> length sql < 6"
  then show "DatabaseProxy_Query p sql
        = ([nl @ ''[DatabaseProxy] User role: user attempting query'' @ nl],
           Inl (SliceBoundsOutOfRange 6 (length sql)))"
    using checkAccess_user_short [of p sql] by (simp add: DatabaseProxy_Query_def)
next
  have u: "userRole (snd (NewDatabaseProxy ''user'')) = ''user''"
    by (simp add: NewDatabaseProxy_def NewRealDatabase_def)
  show "DatabaseProxy_Query (snd (NewDatabaseProxy ''user'')) ''use''
        = ([nl @ ''[DatabaseProxy] User role: user attempting query'' @ nl],
           Inl (SliceBoundsOutOfRange 6 3))"
    using checkAccess_user_short [OF u, of "''use''"] u by (simp add: DatabaseProxy_Query_def)
qed

theorem short_query_of_user_panics_witness:
  "userRole \<lparr>userRole = ''user'', realDatabase = \<lparr>connectionString = ''localhost:5432/mydb''\<rparr>\<rparr>
     = ''user''
   \<and> length ''drop'' < 6
   \<and> snd (DatabaseProxy_Query
        \<lparr>userRole = ''user'', realDatabase = \<lparr>connectionString = ''localhost:5432/mydb''\<rparr>\<rparr>
        ''drop'') = Inl (SliceBoundsOutOfRange 6 4)"
  using short_query_of_user_panics
    [of "\<lparr>userRole = ''user'', realDatabase = \<lparr>connectionString = ''localhost:5432/mydb''\<rparr>\<rparr>"
        "''drop''"]
  by simp

text \<open>
  Claim C10. A locked \<open>BankAccountProxy\<close> stays locked through every sequence of calls
  of its methods, and on a locked proxy \<open>AuthenticateAndWithdraw\<close> returns false and
  leaves the proxy as it was, balance included, whatever the PIN entered and the amount;
  a sequence of such attempts leaves a locked proxy unchanged. Three failed attempts in a
  row on a new proxy lock it with the balance untouched, and the correct PIN fails after
  them.
\<close>

theorem locked_account_stays_locked:
  "(locked p \<longrightarrow>
      (let q = account_calls fl calls p
       in locked q
          \<and> AuthenticateAndWithdraw fl enteredPin amount q
              = ([nl @ ''[BankAccountProxy] Authentication attempt...'' @ nl,
                  ''[BankAccountProxy] Account is LOCKED due to multiple failed attempts'' @ nl],
                 False, q)
          \<and> BankAccountProxy_GetBalance
               (snd (snd (AuthenticateAndWithdraw fl enteredPin amount q)))
              = BankAccountProxy_GetBalance q)
      \<and> account_calls fl (map (\<lambda>(e, a). CallAuthenticateAndWithdraw e a) attempts) p = p)
   \<and> (e1 \<noteq> pn \<and> e2 \<noteq> pn \<and> e3 \<noteq> pn \<longrightarrow>
        (let q = account_calls fl
                   [CallAuthenticateAndWithdraw e1 a1, CallAuthenticateAndWithdraw e2 a2,
                    CallAuthenticateAndWithdraw e3 a3] (NewBankAccountProxy acc bal pn)
         in locked q \<and> BankAccountProxy_GetBalance q = bal
            \<and> fst (snd (AuthenticateAndWithdraw fl pn amount q)) = False))"
proof (intro conjI impI)
  assume l: "locked p"
  have lq: "locked (account_calls fl calls p)"
    using account_calls_locked [OF l] .
  show "let q = account_calls fl calls p
       in locked q
          \<and> AuthenticateAndWithdraw fl enteredPin amount q
              = ([nl @ ''[BankAccountProxy] Authentication attempt...'' @ nl,
                  ''[BankAccountProxy] Account is LOCKED due to multiple failed attempts'' @ nl],
                 False, q)
          \<and> BankAccountProxy_GetBalance
               (snd (snd (AuthenticateAndWithdraw fl enteredPin amount q)))
              = BankAccountProxy_GetBalance q"
    unfolding Let_def AuthenticateAndWithdraw_locked [OF lq] using lq by simp
  show "account_calls fl (map (\<lambda>(e, a). CallAuthenticateAndWithdraw e a) attempts) p = p"
    using authenticate_calls_locked [OF l] .
next
  assume "e1 \<noteq> pn \<and> e2 \<noteq> pn \<and> e3 \<noteq> pn"
  then have "e1 \<noteq> pn" "e2 \<noteq> pn" "e3 \<noteq> pn" by simp_all
  note q = three_failures_lock [OF this, of fl a1 a2 a3 acc bal]
  show "let q = account_calls fl
                   [CallAuthenticateAndWithdraw e1 a1, CallAuthenticateAndWithdraw e2 a2,
                    CallAuthenticateAndWithdraw e3 a3] (NewBankAccountProxy acc bal pn)
         in locked q \<and> BankAccountProxy_GetBalance q = bal
            \<and> fst (snd (AuthenticateAndWithdraw fl pn amount q)) = False"
    unfolding q Let_def
    by (simp add: AuthenticateAndWithdraw_locked BankAccountProxy_GetBalance_def
        RealBankAccount_GetBalance_def NewRealBankAccount_def)
qed

theorem locked_account_stays_locked_witness:
  "locked \<lparr>pin = ''1234'', realAccount = \<lparr>accountNumber = ''ACC123'', balance = 1000::int\<rparr>,
           attemptCount = 3, locked = True\<rparr>
   \<and> fst (snd (AuthenticateAndWithdraw \<lparr>f_ge = (\<ge>), f_sub = (-), f_fmt2 = fmt_d\<rparr> ''1234'' 100
        (account_calls \<lparr>f_ge = (\<ge>), f_sub = (-), f_fmt2 = fmt_d\<rparr> [CallWithdraw 200, CallGetBalance]
           \<lparr>pin = ''1234'', realAccount = \<lparr>accountNumber = ''ACC123'', balance = 1000::int\<rparr>,
             attemptCount = 3, locked = True\<rparr>))) = False
   \<and> ''0000'' \<noteq> ''1234'' \<and> ''9999'' \<noteq> ''1234'' \<and> ''5555'' \<noteq> ''1234''
   \<and> locked (account_calls \<lparr>f_ge = (\<ge>), f_sub = (-), f_fmt2 = fmt_d\<rparr>
        [CallAuthenticateAndWithdraw ''0000'' 100, CallAuthenticateAndWithdraw ''9999'' 100,
         CallAuthenticateAndWithdraw ''5555'' 100] (NewBankAccountProxy ''ACC123'' (1000::int) ''1234''))"
  using locked_account_stays_locked [of
      "\<lparr>pin = ''1234'', realAccount = \<lparr>accountNumber = ''ACC123'', balance = 1000::int\<rparr>,
           attemptCount = 3, locked = True\<rparr>"
      "\<lparr>f_ge = (\<ge>), f_sub = (-), f_fmt2 = fmt_d\<rparr>" "[CallWithdraw 200, CallGetBalance]"
      "''1234''" 100 "[]" "''0000''" "''1234''" "''9999''" "''5555''" 100 100 100 "''ACC123''" 1000]
  by (simp add: Let_def)

end
